theory Spec2Isabelle
  imports Main
begin

section \<open>Data model of the match state (src/server.js, \<open>gameState\<close>)\<close>

text \<open>
  The server keeps one mutable object \<open>gameState\<close>. Its players and ghosts are plain
  JavaScript objects; the numbers are JavaScript numbers used as integers and are modelled
  as \<open>int\<close>. The facing direction is one of the four string literals the code assigns.
\<close>

datatype Direction = Up | Down | Left | Right

record entity =
  x :: int
  y :: int
  direction :: Direction

text \<open>
  \<open>name\<close> is absent on the initial object, the empty string after a reset and whatever the
  client sent afterwards: \<open>None\<close> stands for \<open>undefined\<close>/\<open>null\<close>.
\<close>

record player = entity +
  score :: int
  lives :: int
  invulnerable :: bool
  invulnerableTime :: int
  name :: "string option"

text \<open>
  \<open>originalColor\<close> is a property that the code adds and removes with \<open>delete\<close>; \<open>None\<close> is
  the absent property. \<open>speed\<close> and \<open>target\<close> are written once and never read.
\<close>

record ghost = entity +
  color :: string
  speed :: int
  target :: "(int \<times> int) option"
  originalColor :: "string option"

record gameState =
  player1 :: player
  player2 :: player
  dots :: "(int \<times> int) list"
  powerPellets :: "(int \<times> int) list"
  ghosts :: "ghost list"
  gameOver :: bool
  winner :: "string option"
  powerMode :: bool
  powerModeTime :: int

text \<open>The object sent with \<open>player-input\<close> and \<open>arduino-input\<close>.\<close>

record input =
  up :: bool
  down :: bool
  left :: bool
  right :: bool

text \<open>
  \<open>v || d\<close> on a string-valued property: the absent and the empty value are falsy.
\<close>

definition orElse :: "string option \<Rightarrow> string \<Rightarrow> string" where
  "orElse v d = (case v of None \<Rightarrow> d | Some s \<Rightarrow> if s = [] then d else s)"

section \<open>The maze\<close>

text \<open>
  \<open>MAZE_LAYOUT\<close>, row by row: 1 is a wall, 0 a corridor cell with a dot, 2 the ghost
  house, 3 a corridor cell with a power pellet. The first and the last row are 28 walls.
\<close>

definition MAZE_LAYOUT :: "int list list" where
  "MAZE_LAYOUT = [
   replicate 28 1,
   [1, 0, 0, 0, 0, 0, 0, 0, 0, 0, 0, 0, 0, 1, 1, 0, 0, 0, 0, 0, 0, 0, 0, 0, 0, 0, 0, 1],
   [1, 0, 1, 1, 1, 1, 0, 1, 1, 1, 1, 1, 0, 1, 1, 0, 1, 1, 1, 1, 1, 0, 1, 1, 1, 1, 0, 1],
   [1, 3, 1, 1, 1, 1, 0, 1, 1, 1, 1, 1, 0, 1, 1, 0, 1, 1, 1, 1, 1, 0, 1, 1, 1, 1, 3, 1],
   [1, 0, 1, 1, 1, 1, 0, 1, 1, 1, 1, 1, 0, 1, 1, 0, 1, 1, 1, 1, 1, 0, 1, 1, 1, 1, 0, 1],
   [1, 0, 0, 0, 0, 0, 0, 0, 0, 0, 0, 0, 0, 0, 0, 0, 0, 0, 0, 0, 0, 0, 0, 0, 0, 0, 0, 1],
   [1, 0, 1, 1, 1, 1, 0, 1, 1, 0, 1, 1, 1, 1, 1, 1, 1, 1, 0, 1, 1, 0, 1, 1, 1, 1, 0, 1],
   [1, 0, 1, 1, 1, 1, 0, 1, 1, 0, 1, 1, 1, 1, 1, 1, 1, 1, 0, 1, 1, 0, 1, 1, 1, 1, 0, 1],
   [1, 0, 0, 0, 0, 0, 0, 1, 1, 0, 0, 0, 0, 1, 1, 0, 0, 0, 0, 1, 1, 0, 0, 0, 0, 0, 0, 1],
   [1, 1, 1, 1, 1, 1, 0, 1, 1, 1, 1, 1, 0, 1, 1, 0, 1, 1, 1, 1, 1, 0, 1, 1, 1, 1, 1, 1],
   [1, 1, 1, 1, 1, 1, 0, 1, 1, 1, 1, 1, 0, 1, 1, 0, 1, 1, 1, 1, 1, 0, 1, 1, 1, 1, 1, 1],
   [1, 1, 1, 1, 1, 1, 0, 1, 1, 0, 0, 0, 0, 0, 0, 0, 0, 0, 0, 1, 1, 0, 1, 1, 1, 1, 1, 1],
   [1, 1, 1, 1, 1, 1, 0, 1, 1, 0, 1, 1, 1, 2, 2, 1, 1, 1, 0, 1, 1, 0, 1, 1, 1, 1, 1, 1],
   [1, 1, 1, 1, 1, 1, 0, 1, 1, 0, 1, 2, 2, 2, 2, 2, 2, 1, 0, 1, 1, 0, 1, 1, 1, 1, 1, 1],
   [0, 0, 0, 0, 0, 0, 0, 0, 0, 0, 1, 2, 2, 2, 2, 2, 2, 1, 0, 0, 0, 0, 0, 0, 0, 0, 0, 0],
   [1, 1, 1, 1, 1, 1, 0, 1, 1, 0, 1, 2, 2, 2, 2, 2, 2, 1, 0, 1, 1, 0, 1, 1, 1, 1, 1, 1],
   [1, 1, 1, 1, 1, 1, 0, 1, 1, 0, 1, 1, 1, 1, 1, 1, 1, 1, 0, 1, 1, 0, 1, 1, 1, 1, 1, 1],
   [1, 1, 1, 1, 1, 1, 0, 1, 1, 0, 0, 0, 0, 0, 0, 0, 0, 0, 0, 1, 1, 0, 1, 1, 1, 1, 1, 1],
   [1, 1, 1, 1, 1, 1, 0, 1, 1, 0, 1, 1, 1, 1, 1, 1, 1, 1, 0, 1, 1, 0, 1, 1, 1, 1, 1, 1],
   [1, 1, 1, 1, 1, 1, 0, 1, 1, 0, 1, 1, 1, 1, 1, 1, 1, 1, 0, 1, 1, 0, 1, 1, 1, 1, 1, 1],
   [1, 0, 0, 0, 0, 0, 0, 0, 0, 0, 0, 0, 0, 1, 1, 0, 0, 0, 0, 0, 0, 0, 0, 0, 0, 0, 0, 1],
   [1, 0, 1, 1, 1, 1, 0, 1, 1, 1, 1, 1, 0, 1, 1, 0, 1, 1, 1, 1, 1, 0, 1, 1, 1, 1, 0, 1],
   [1, 0, 1, 1, 1, 1, 0, 1, 1, 1, 1, 1, 0, 1, 1, 0, 1, 1, 1, 1, 1, 0, 1, 1, 1, 1, 0, 1],
   [1, 3, 0, 0, 1, 1, 0, 0, 0, 0, 0, 0, 0, 0, 0, 0, 0, 0, 0, 0, 0, 0, 1, 1, 0, 0, 3, 1],
   [1, 1, 1, 0, 1, 1, 0, 1, 1, 0, 1, 1, 1, 1, 1, 1, 1, 1, 0, 1, 1, 0, 1, 1, 0, 1, 1, 1],
   [1, 1, 1, 0, 1, 1, 0, 1, 1, 0, 1, 1, 1, 1, 1, 1, 1, 1, 0, 1, 1, 0, 1, 1, 0, 1, 1, 1],
   [1, 0, 0, 0, 0, 0, 0, 1, 1, 0, 0, 0, 0, 1, 1, 0, 0, 0, 0, 1, 1, 0, 0, 0, 0, 0, 0, 1],
   [1, 0, 1, 1, 1, 1, 1, 1, 1, 1, 1, 1, 0, 1, 1, 0, 1, 1, 1, 1, 1, 1, 1, 1, 1, 1, 0, 1],
   [1, 0, 1, 1, 1, 1, 1, 1, 1, 1, 1, 1, 0, 1, 1, 0, 1, 1, 1, 1, 1, 1, 1, 1, 1, 1, 0, 1],
   [1, 0, 0, 0, 0, 0, 0, 0, 0, 0, 0, 0, 0, 0, 0, 0, 0, 0, 0, 0, 0, 0, 0, 0, 0, 0, 0, 1],
   replicate 28 1
  ]"

text \<open>
  \<open>MAZE_LAYOUT[newY][newX]\<close>, read only behind the bounds checks of the caller; outside the
  grid the model answers the wall value so that nothing is read out of range.
\<close>

definition cellAt :: "int \<Rightarrow> int \<Rightarrow> int" where
  "cellAt cy cx =
     (if 0 \<le> cy \<and> cy < int (length MAZE_LAYOUT) \<and> 0 \<le> cx \<and> cx < int (length (MAZE_LAYOUT ! nat cy))
      then MAZE_LAYOUT ! nat cy ! nat cx else 1)"

section \<open>Input routing (\<open>updatePlayerDirection\<close>)\<close>

definition updatePlayerDirection :: "player \<Rightarrow> input \<Rightarrow> player" where
  "updatePlayerDirection p i =
     (if up i then p\<lparr>direction := Up\<rparr>
      else if down i then p\<lparr>direction := Down\<rparr>
      else if left i then p\<lparr>direction := Left\<rparr>
      else if right i then p\<lparr>direction := Right\<rparr>
      else p)"

section \<open>Movement\<close>

text \<open>The tunnel: \<open>if (newX < 0) newX = 27\<close> followed by \<open>if (newX > 27) newX = 0\<close>.\<close>

definition tunnel :: "int \<Rightarrow> int" where
  "tunnel nx = (let a = (if nx < 0 then 27 else nx) in if a > 27 then 0 else a)"

text \<open>The \<open>switch\<close> on a direction that both movement functions use.\<close>

fun stepFrom :: "Direction \<Rightarrow> int \<times> int \<Rightarrow> int \<times> int" where
  "stepFrom Up (nx, ny) = (nx, ny - 1)"
| "stepFrom Down (nx, ny) = (nx, ny + 1)"
| "stepFrom Left (nx, ny) = (nx - 1, ny)"
| "stepFrom Right (nx, ny) = (nx + 1, ny)"

definition movePlayer :: "player \<Rightarrow> player" where
  "movePlayer p =
     (let (newX0, newY) = stepFrom (direction p) (x p, y p);
          newX = tunnel newX0
      in if newY \<ge> 0 \<and> newY < int (length MAZE_LAYOUT) \<and>
            newX \<ge> 0 \<and> newX < int (length (MAZE_LAYOUT ! 0)) \<and>
            cellAt newY newX \<noteq> 1
         then p\<lparr>x := newX, y := newY\<rparr>
         else p)"

section \<open>Ghost AI and ghost step (\<open>moveGhosts\<close>)\<close>

text \<open>
  The two uses of \<open>Math.random()\<close> for one ghost: \<open>chase\<close> is the outcome of
  \<open>Math.random() < 0.3\<close> and \<open>pick\<close> the element
  \<open>directions[Math.floor(Math.random() * directions.length)]\<close>.
\<close>

record dice =
  chase :: bool
  pick :: Direction

definition distanceTo :: "ghost \<Rightarrow> player \<Rightarrow> int" where
  "distanceTo g p = \<bar>x g - x p\<bar> + \<bar>y g - y p\<bar>"

definition chooseTarget :: "gameState \<Rightarrow> dice \<Rightarrow> nat \<Rightarrow> ghost \<Rightarrow> (int \<times> int) option" where
  "chooseTarget s d index g =
     (let p1 = player1 s; p2 = player2 s in
      if powerMode s then
        (if distanceTo g p1 < distanceTo g p2
         then Some (x g + (x g - x p1), y g + (y g - y p1))
         else Some (x g + (x g - x p2), y g + (y g - y p2)))
      else if index = 0 then Some (x p1, y p1)
      else if index = 1 then Some (x p2, y p2)
      else if index = 2 then
        (if score p1 \<ge> score p2 then Some (x p1, y p1) else Some (x p2, y p2))
      else if index = 3 then
        (if chase d then
           (if distanceTo g p1 < distanceTo g p2 then Some (x p1, y p1) else Some (x p2, y p2))
         else None)
      else None)"

text \<open>
  The attempted move: the candidate cell before the tunnel and the direction the ghost is
  turned to. With a target the larger delta decides; without one the random pick does.
\<close>

definition attempt :: "(int \<times> int) option \<Rightarrow> Direction \<Rightarrow> ghost \<Rightarrow> (int \<times> int) \<times> Direction" where
  "attempt tgt rnd g =
     (case tgt of
        Some (tx, ty) \<Rightarrow>
          (let deltaX = tx - x g; deltaY = ty - y g in
           if \<bar>deltaX\<bar> > \<bar>deltaY\<bar> then
             (if deltaX > 0 then ((x g + 1, y g), Right) else ((x g - 1, y g), Left))
           else
             (if deltaY > 0 then ((x g, y g + 1), Down) else ((x g, y g - 1), Up)))
      | None \<Rightarrow> (stepFrom rnd (x g, y g), rnd))"

definition stepGhost :: "(int \<times> int) option \<Rightarrow> Direction \<Rightarrow> ghost \<Rightarrow> ghost" where
  "stepGhost tgt rnd g =
     (let ((newX0, newY), d) = attempt tgt rnd g;
          newX = tunnel newX0;
          g1 = g\<lparr>direction := d\<rparr>
      in if newX \<ge> 0 \<and> newX < 28 \<and> newY \<ge> 0 \<and> newY < 31
         then g1\<lparr>x := newX, y := newY\<rparr>
         else g1)"

definition moveGhost :: "gameState \<Rightarrow> dice \<Rightarrow> nat \<Rightarrow> ghost \<Rightarrow> ghost" where
  "moveGhost s d index g = stepGhost (chooseTarget s d index g) (pick d) g"

text \<open>\<open>gameState.ghosts.forEach((ghost, index) => ...)\<close>, from position \<open>index\<close> on.\<close>

fun moveGhostsFrom :: "gameState \<Rightarrow> (nat \<Rightarrow> dice) \<Rightarrow> nat \<Rightarrow> ghost list \<Rightarrow> ghost list" where
  "moveGhostsFrom s rnd index [] = []"
| "moveGhostsFrom s rnd index (g # gs) =
     moveGhost s (rnd index) index g # moveGhostsFrom s rnd (Suc index) gs"

definition moveGhosts :: "(nat \<Rightarrow> dice) \<Rightarrow> gameState \<Rightarrow> gameState" where
  "moveGhosts rnd s = s\<lparr>ghosts := moveGhostsFrom s rnd 0 (ghosts s)\<rparr>"

section \<open>Timers (\<open>updateInvulnerability\<close>, \<open>updatePowerMode\<close>)\<close>

text \<open>\<open>now\<close> is the value \<open>Date.now()\<close> returns in the call.\<close>

definition expireInvulnerable :: "int \<Rightarrow> player \<Rightarrow> player" where
  "expireInvulnerable now p =
     (if invulnerable p \<and> now - invulnerableTime p > 3000 then p\<lparr>invulnerable := False\<rparr> else p)"

definition updateInvulnerability :: "int \<Rightarrow> gameState \<Rightarrow> gameState" where
  "updateInvulnerability now s =
     s\<lparr>player1 := expireInvulnerable now (player1 s),
       player2 := expireInvulnerable now (player2 s)\<rparr>"

text \<open>\<open>if (ghost.originalColor) { ghost.color = ghost.originalColor; delete ghost.originalColor }\<close>\<close>

definition restoreOriginal :: "ghost \<Rightarrow> ghost" where
  "restoreOriginal g =
     (case originalColor g of
        None \<Rightarrow> g
      | Some c \<Rightarrow> if c = [] then g else g\<lparr>color := c, originalColor := None\<rparr>)"

definition resetColor :: "ghost \<Rightarrow> ghost" where
  "resetColor g = (if color g = ''blue'' then restoreOriginal g else g)"

definition updatePowerMode :: "int \<Rightarrow> gameState \<Rightarrow> gameState" where
  "updatePowerMode now s =
     (if powerMode s then
        (if now - powerModeTime s > 10000
         then s\<lparr>powerMode := False, ghosts := map resetColor (ghosts s)\<rparr>
         else s)
      else s)"

section \<open>Collisions (\<open>checkCollisions\<close>)\<close>

definition onCell :: "int \<times> int \<Rightarrow> player \<Rightarrow> bool" where
  "onCell c p = (fst c = x p \<and> snd c = y p)"

definition addScore :: "int \<Rightarrow> player \<Rightarrow> player" where
  "addScore n p = p\<lparr>score := score p + n\<rparr>"

text \<open>
  The callback of \<open>gameState.dots.filter\<close>, with the two players it updates threaded
  through: the result is the kept dots and the players after the whole pass.
\<close>

fun collectDots :: "(int \<times> int) list \<Rightarrow> player \<Rightarrow> player \<Rightarrow> (int \<times> int) list \<times> player \<times> player" where
  "collectDots [] p1 p2 = ([], p1, p2)"
| "collectDots (dot # rest) p1 p2 =
     (if onCell dot p1 \<or> onCell dot p2 then
        (let q1 = (if onCell dot p1 then addScore 10 p1 else p1);
             q2 = (if onCell dot p2 then addScore 10 p2 else p2)
         in collectDots rest q1 q2)
      else
        (let (kept, q1, q2) = collectDots rest p1 p2 in (dot # kept, q1, q2)))"

definition dotPhase :: "gameState \<Rightarrow> gameState" where
  "dotPhase s =
     (let (kept, q1, q2) = collectDots (dots s) (player1 s) (player2 s)
      in s\<lparr>dots := kept, player1 := q1, player2 := q2\<rparr>)"

definition turnBlue :: "ghost \<Rightarrow> ghost" where
  "turnBlue g =
     (if color g \<noteq> ''blue'' then g\<lparr>color := ''blue'', originalColor := Some (color g)\<rparr> else g)"

text \<open>
  What the callback of \<open>gameState.powerPellets.filter\<close> does for a pellet a player
  stands on: the scores, the power mode and its time stamp, the ghosts turned blue.
\<close>

definition eatPellet :: "int \<Rightarrow> int \<times> int \<Rightarrow> gameState \<Rightarrow> gameState" where
  "eatPellet now pellet s =
     (let s1 = (if onCell pellet (player1 s) then s\<lparr>player1 := addScore 50 (player1 s)\<rparr> else s);
          s2 = (if onCell pellet (player2 s1) then s1\<lparr>player2 := addScore 50 (player2 s1)\<rparr> else s1)
      in s2\<lparr>powerMode := True, powerModeTime := now, ghosts := map turnBlue (ghosts s2)\<rparr>)"

text \<open>The filter itself, with the state the callback updates threaded through.\<close>

fun collectPellets :: "int \<Rightarrow> (int \<times> int) list \<Rightarrow> gameState \<Rightarrow> (int \<times> int) list \<times> gameState" where
  "collectPellets now [] s = ([], s)"
| "collectPellets now (pellet # rest) s =
     (if onCell pellet (player1 s) \<or> onCell pellet (player2 s) then
        collectPellets now rest (eatPellet now pellet s)
      else
        (let (kept, s') = collectPellets now rest s in (pellet # kept, s')))"

definition pelletPhase :: "int \<Rightarrow> gameState \<Rightarrow> gameState" where
  "pelletPhase now s =
     (let (kept, s') = collectPellets now (powerPellets s) s in s'\<lparr>powerPellets := kept\<rparr>)"

text \<open>The respawn cell of an eaten ghost.\<close>

definition sendHome :: "nat \<Rightarrow> ghost \<Rightarrow> ghost" where
  "sendHome ghostIndex g = g\<lparr>x := 13 + int (ghostIndex mod 2), y := 14 + int (ghostIndex div 2)\<rparr>"

definition killPlayer1 :: "int \<Rightarrow> player \<Rightarrow> player" where
  "killPlayer1 now p =
     p\<lparr>lives := lives p - 1, invulnerable := True, invulnerableTime := now,
       x := 1, y := 1, direction := Right\<rparr>"

definition killPlayer2 :: "int \<Rightarrow> player \<Rightarrow> player" where
  "killPlayer2 now p =
     p\<lparr>lives := lives p - 1, invulnerable := True, invulnerableTime := now,
       x := 26, y := 1, direction := Left\<rparr>"

text \<open>
  One pass of the body of the \<open>forEach\<close> over the ghosts: the check against player 1, then
  the check against player 2 with the ghost and the state the first check left.
\<close>

definition collidePlayer1 :: "int \<Rightarrow> nat \<Rightarrow> ghost \<times> gameState \<Rightarrow> ghost \<times> gameState" where
  "collidePlayer1 now ghostIndex gs =
     (let g = fst gs; s = snd gs in
      if x g = x (player1 s) \<and> y g = y (player1 s) then
        (if powerMode s then
           (restoreOriginal (sendHome ghostIndex g), s\<lparr>player1 := addScore 200 (player1 s)\<rparr>)
         else if \<not> invulnerable (player1 s) then
           (g, s\<lparr>player1 := killPlayer1 now (player1 s)\<rparr>)
         else (g, s))
      else (g, s))"

definition collidePlayer2 :: "int \<Rightarrow> nat \<Rightarrow> ghost \<times> gameState \<Rightarrow> ghost \<times> gameState" where
  "collidePlayer2 now ghostIndex gs =
     (let g = fst gs; s = snd gs in
      if x g = x (player2 s) \<and> y g = y (player2 s) then
        (if powerMode s then
           (restoreOriginal (sendHome ghostIndex g), s\<lparr>player2 := addScore 200 (player2 s)\<rparr>)
         else if \<not> invulnerable (player2 s) then
           (g, s\<lparr>player2 := killPlayer2 now (player2 s)\<rparr>)
         else (g, s))
      else (g, s))"

definition collideGhost :: "int \<Rightarrow> nat \<Rightarrow> ghost \<times> gameState \<Rightarrow> ghost \<times> gameState" where
  "collideGhost now ghostIndex gs = collidePlayer2 now ghostIndex (collidePlayer1 now ghostIndex gs)"

fun ghostCollisions :: "int \<Rightarrow> nat \<Rightarrow> ghost list \<Rightarrow> gameState \<Rightarrow> ghost list \<times> gameState" where
  "ghostCollisions now ghostIndex [] s = ([], s)"
| "ghostCollisions now ghostIndex (g # rest) s =
     (let (g', s1) = collideGhost now ghostIndex (g, s);
          (rest', s2) = ghostCollisions now (Suc ghostIndex) rest s1
      in (g' # rest', s2))"

definition ghostPhase :: "int \<Rightarrow> gameState \<Rightarrow> gameState" where
  "ghostPhase now s =
     (let (gs, s') = ghostCollisions now 0 (ghosts s) s in s'\<lparr>ghosts := gs\<rparr>)"

definition checkCollisions :: "int \<Rightarrow> gameState \<Rightarrow> gameState" where
  "checkCollisions now s = ghostPhase now (pelletPhase now (dotPhase s))"

section \<open>Win evaluation (\<open>checkGameOver\<close>)\<close>

definition byScore :: "gameState \<Rightarrow> string option" where
  "byScore s =
     (if score (player1 s) > score (player2 s) then Some (orElse (name (player1 s)) ''Player 1'')
      else if score (player2 s) > score (player1 s) then Some (orElse (name (player2 s)) ''Player 2'')
      else None)"

definition checkGameOver :: "gameState \<Rightarrow> gameState" where
  "checkGameOver s =
     (let s1 = (if dots s = [] \<and> powerPellets s = []
                then s\<lparr>gameOver := True, winner := byScore s\<rparr> else s);
          s2 = (if lives (player1 s1) \<le> 0 \<and> lives (player2 s1) \<le> 0
                then s1\<lparr>gameOver := True, winner := byScore s1\<rparr> else s1)
      in if lives (player1 s2) \<le> 0 \<and> lives (player2 s2) > 0
         then s2\<lparr>gameOver := True, winner := Some (orElse (name (player2 s2)) ''Player 2'')\<rparr>
         else if lives (player2 s2) \<le> 0 \<and> lives (player1 s2) > 0
         then s2\<lparr>gameOver := True, winner := Some (orElse (name (player1 s2)) ''Player 1'')\<rparr>
         else s2)"

section \<open>Session reset (\<open>resetGameState\<close>)\<close>

text \<open>
  The nested loop over rows \<open>y\<close> and columns \<open>x\<close> pushes \<open>{x, y}\<close> for every cell holding
  the marker; \<open>cellsWith\<close> lists those cells in the loop's order.
\<close>

definition rowCells :: "int \<Rightarrow> nat \<Rightarrow> int list \<Rightarrow> (int \<times> int) list" where
  "rowCells marker cy row =
     map (\<lambda>(cx, c). (int cx, int cy)) (filter (\<lambda>(cx, c). c = marker) (enumerate 0 row))"

definition cellsWith :: "int \<Rightarrow> (int \<times> int) list" where
  "cellsWith marker = concat (map (\<lambda>(cy, row). rowCells marker cy row) (enumerate 0 MAZE_LAYOUT))"

definition newGhost :: "int \<Rightarrow> int \<Rightarrow> Direction \<Rightarrow> string \<Rightarrow> ghost" where
  "newGhost gx gy d c =
     \<lparr>x = gx, y = gy, direction = d, color = c, speed = 1, target = None, originalColor = None\<rparr>"

definition newGhosts :: "ghost list" where
  "newGhosts =
     [newGhost 13 14 Up ''red'', newGhost 14 14 Up ''pink'',
      newGhost 13 15 Left ''cyan'', newGhost 14 15 Right ''orange'']"

definition newPlayer :: "int \<Rightarrow> int \<Rightarrow> Direction \<Rightarrow> string option \<Rightarrow> player" where
  "newPlayer sx sy d n =
     \<lparr>x = sx, y = sy, direction = d, score = 0, lives = 5, invulnerable = False,
      invulnerableTime = 0, name = n\<rparr>"

text \<open>The object \<open>gameState\<close> is bound to when the module is loaded: no names, no dots.\<close>

definition initialGameState :: gameState where
  "initialGameState =
     \<lparr>player1 = newPlayer 1 1 Right None, player2 = newPlayer 26 1 Left None,
      dots = [], powerPellets = [], ghosts = newGhosts,
      gameOver = False, winner = None, powerMode = False, powerModeTime = 0\<rparr>"

definition resetGameState :: gameState where
  "resetGameState =
     \<lparr>player1 = newPlayer 1 1 Right (Some []), player2 = newPlayer 26 1 Left (Some []),
      dots = cellsWith 0, powerPellets = cellsWith 3, ghosts = newGhosts,
      gameOver = False, winner = None, powerMode = False, powerModeTime = 0\<rparr>"

section \<open>The game loop and the event handlers\<close>

text \<open>
  The three clock readings of a tick, in the order the tick takes them:
  \<open>updateInvulnerability\<close>, \<open>updatePowerMode\<close>, \<open>checkCollisions\<close>.
\<close>

record clock =
  atInvulnerability :: int
  atPowerMode :: int
  atCollisions :: int

definition movePlayers :: "gameState \<Rightarrow> gameState" where
  "movePlayers s = (let s1 = s\<lparr>player1 := movePlayer (player1 s)\<rparr>
                    in s1\<lparr>player2 := movePlayer (player2 s1)\<rparr>)"

text \<open>The state on which \<open>checkCollisions\<close> runs: timers, then players, then ghosts.\<close>

definition beforeCollisions :: "clock \<Rightarrow> (nat \<Rightarrow> dice) \<Rightarrow> gameState \<Rightarrow> gameState" where
  "beforeCollisions t rnd s =
     moveGhosts rnd (movePlayers (updatePowerMode (atPowerMode t)
       (updateInvulnerability (atInvulnerability t) s)))"

text \<open>The body of the \<open>setInterval\<close> callback, up to the emitted snapshot.\<close>

definition gameTick :: "clock \<Rightarrow> (nat \<Rightarrow> dice) \<Rightarrow> gameState \<Rightarrow> gameState" where
  "gameTick t rnd s = checkGameOver (checkCollisions (atCollisions t) (beforeCollisions t rnd s))"

text \<open>
  The process state: the match and whether \<open>gameLoopInterval\<close> holds a live timer. A
  cleared timer does not fire.
\<close>

record server =
  game :: gameState
  gameLoopInterval :: bool

definition initialServer :: server where
  "initialServer = \<lparr>game = initialGameState, gameLoopInterval = False\<rparr>"

text \<open>\<open>socket.on("player-input", ({ player, input }) => ...)\<close>\<close>

definition playerInput :: "int \<Rightarrow> input \<Rightarrow> gameState \<Rightarrow> gameState" where
  "playerInput n i s =
     (if n = 1 then s\<lparr>player1 := updatePlayerDirection (player1 s) i\<rparr>
      else if n = 2 then s\<lparr>player2 := updatePlayerDirection (player2 s) i\<rparr>
      else s)"

text \<open>\<open>socket.on("arduino-input", (input) => ...)\<close>: the bridge event.\<close>

definition arduinoInput :: "input \<Rightarrow> gameState \<Rightarrow> gameState" where
  "arduinoInput i s = s\<lparr>player1 := updatePlayerDirection (player1 s) i\<rparr>"

text \<open>
  The text of a request is a JavaScript string, here the list of its code points.
  \<open>codes\<close> writes an ASCII text as such a list.
\<close>

definition codes :: "string \<Rightarrow> nat list" where
  "codes t = map of_char t"

text \<open>
  \<open>String.prototype.toUpperCase\<close>, code point by code point. The letters a to z lose 32.
  \<open>specialUpper\<close> lists every other code point whose upper-casing contains an ASCII
  letter, with that upper-casing: sharp s, dotless i (to \<open>I\<close>), n preceded by apostrophe,
  long s, j with caron, h with line below, t with diaeresis, w and y with ring above, a
  with right half ring, and the ligatures ff, fi, fl, ffi, ffl, long s t and st. The
  upper-casing of any code point left is not empty and has no ASCII letter in it; such a
  code point, which is no ASCII letter itself, stands for its upper-casing.
\<close>

definition specialUpper :: "(nat \<times> nat list) list" where
  "specialUpper =
     [(223, [83, 83]), (305, [73]), (329, [700, 78]), (383, [83]), (496, [74, 780]),
      (7830, [72, 817]), (7831, [84, 776]), (7832, [87, 778]), (7833, [89, 778]),
      (7834, [65, 702]), (64256, [70, 70]), (64257, [70, 73]), (64258, [70, 76]),
      (64259, [70, 70, 73]), (64260, [70, 70, 76]), (64261, [83, 84]), (64262, [83, 84])]"

definition upperPoint :: "nat \<Rightarrow> nat list" where
  "upperPoint c =
     (if 97 \<le> c \<and> c \<le> 122 then [c - 32]
      else case map_of specialUpper c of Some u \<Rightarrow> u | None \<Rightarrow> [c])"

definition toUpperCase :: "nat list \<Rightarrow> nat list" where
  "toUpperCase t = concat (map upperPoint t)"

text \<open>The \<open>switch (direction.toUpperCase())\<close> that fills a fresh all-false input.\<close>

definition pressInput :: "nat list \<Rightarrow> input" where
  "pressInput d =
     (let u = toUpperCase d in
      \<lparr>up = (u = codes ''UP''), down = (u = codes ''DOWN''),
       left = (u = codes ''LEFT''), right = (u = codes ''RIGHT'')\<rparr>)"

text \<open>\<open>socket.on("arduino-manual-press", (direction) => ...)\<close>\<close>

definition manualPress :: "nat list \<Rightarrow> gameState \<Rightarrow> gameState" where
  "manualPress d s = s\<lparr>player1 := updatePlayerDirection (player1 s) (pressInput d)\<rparr>"

text \<open>
  \<open>POST /api/arduino/press\<close> of src/server.js and src/index.js. \<open>bodyValue\<close> is what
  \<open>const { direction } = req.body\<close> reads from the parsed JSON body: \<open>Absent\<close> is a body
  without the field, or with a falsy value that is no text (\<open>null\<close>, \<open>false\<close>, \<open>0\<close>);
  \<open>Text\<close> is a string; \<open>Other\<close> is any other value (a number but 0, \<open>true\<close>, an array,
  an object), on which \<open>direction.toUpperCase\<close> is no function, so that the handler
  throws in its first test and the framework answers with its error reply. The reply is
  the 400 rejection, that error reply, or the success body, which carries the input.
\<close>

datatype bodyValue = Absent | Text "nat list" | Other

datatype response = BadRequest | ServerError | Pressed input

definition directionTokens :: "nat list list" where
  "directionTokens = [codes ''UP'', codes ''DOWN'', codes ''LEFT'', codes ''RIGHT'']"

definition apiPress :: "bodyValue \<Rightarrow> gameState \<Rightarrow> response \<times> gameState" where
  "apiPress d s =
     (case d of
        Absent \<Rightarrow> (BadRequest, s)
      | Other \<Rightarrow> (ServerError, s)
      | Text t \<Rightarrow>
          if t = [] \<or> toUpperCase t \<notin> set directionTokens
          then (BadRequest, s)
          else (Pressed (pressInput t),
                s\<lparr>player1 := updatePlayerDirection (player1 s) (pressInput t)\<rparr>))"

text \<open>
  The serial bridge of the hardware variant (src/unnamed/part_000): the \<open>switch (key)\<close>
  on the text after \<open>KEY:\<close>.
\<close>

definition keyInput :: "string \<Rightarrow> input" where
  "keyInput k =
     \<lparr>up = (k \<in> set [''UP'', ''1'', ''UP_VAL'']),
      down = (k \<in> set [''DOWN'', ''2'', ''DOWN_VAL'']),
      left = (k \<in> set [''LEFT'', ''3'', ''LEFT_VAL'']),
      right = (k \<in> set [''RIGHT'', ''0'', ''RIGHT_VAL''])\<rparr>"

text \<open>
  The same bridge on a line that is a bare number, the analog reading of the keypad:
  the chain of \<open>else if\<close> on the value, and the update of player 1 behind
  \<open>if (input.up || input.down || input.left || input.right)\<close>. Readings from 600 on
  (SELECT, no key) set no flag.
\<close>

definition analogInput :: "int \<Rightarrow> input" where
  "analogInput v =
     \<lparr>up = (50 \<le> v \<and> v < 200), down = (200 \<le> v \<and> v < 400),
      left = (400 \<le> v \<and> v < 600), right = (v < 50)\<rparr>"

definition analogEvent :: "int \<Rightarrow> gameState \<Rightarrow> gameState" where
  "analogEvent v s =
     (let i = analogInput v in
      if up i \<or> down i \<or> left i \<or> right i
      then s\<lparr>player1 := updatePlayerDirection (player1 s) i\<rparr>
      else s)"

text \<open>\<open>socket.on("start-game", ({ player1Name, player2Name }) => ...)\<close>, on the match.\<close>

definition startGame :: "string option \<Rightarrow> string option \<Rightarrow> gameState" where
  "startGame player1Name player2Name =
     resetGameState\<lparr>player1 := (player1 resetGameState)\<lparr>name := player1Name\<rparr>,
                    player2 := (player2 resetGameState)\<lparr>name := player2Name\<rparr>\<rparr>"

datatype event =
    Tick clock "nat \<Rightarrow> dice"
  | PlayerInput int input
  | ArduinoInput input
  | ManualPress "nat list"
  | ApiPress bodyValue
  | StartGame "string option" "string option"

fun handle :: "event \<Rightarrow> server \<Rightarrow> server" where
  "handle (Tick t rnd) sv =
     (if gameLoopInterval sv then
        (let g = gameTick t rnd (game sv)
         in sv\<lparr>game := g, gameLoopInterval := \<not> gameOver g\<rparr>)
      else sv)"
| "handle (PlayerInput n i) sv = sv\<lparr>game := playerInput n i (game sv)\<rparr>"
| "handle (ArduinoInput i) sv = sv\<lparr>game := arduinoInput i (game sv)\<rparr>"
| "handle (ManualPress d) sv = sv\<lparr>game := manualPress d (game sv)\<rparr>"
| "handle (ApiPress d) sv = sv\<lparr>game := snd (apiPress d (game sv))\<rparr>"
| "handle (StartGame n1 n2) sv = sv\<lparr>game := startGame n1 n2, gameLoopInterval := True\<rparr>"

text \<open>The process states the handlers can produce from the initial one.\<close>

inductive reachable :: "server \<Rightarrow> bool" where
  start: "reachable initialServer"
| step: "reachable sv \<Longrightarrow> reachable (handle e sv)"

section \<open>Properties and scenarios\<close>

text \<open>The grid: 28 columns and 31 rows.\<close>

definition inGrid :: "'a entity_scheme \<Rightarrow> bool" where
  "inGrid e = (0 \<le> x e \<and> x e \<le> 27 \<and> 0 \<le> y e \<and> y e \<le> 30)"

definition positionsInGrid :: "gameState \<Rightarrow> bool" where
  "positionsInGrid s =
     (inGrid (player1 s) \<and> inGrid (player2 s) \<and> length (ghosts s) = 4
      \<and> list_all inGrid (ghosts s))"

text \<open>
  The second match state is the first one up to the facing direction of player 1, or of
  player 2.
\<close>

definition turnsPlayer1 :: "gameState \<Rightarrow> gameState \<Rightarrow> bool" where
  "turnsPlayer1 s s' = (s' = s\<lparr>player1 := (player1 s)\<lparr>direction := direction (player1 s')\<rparr>\<rparr>)"

definition turnsPlayer2 :: "gameState \<Rightarrow> gameState \<Rightarrow> bool" where
  "turnsPlayer2 s s' = (s' = s\<lparr>player2 := (player2 s)\<lparr>direction := direction (player2 s')\<rparr>\<rparr>)"

text \<open>
  A text is a direction token in some letter case: each of its code points is the
  upper-case ASCII letter of the token or that letter plus 32, the lower-case one.
  \<open>dotlessCase\<close> also takes the dotless i, code point 305, for the letter \<open>I\<close>.
\<close>

definition letterCase :: "nat list \<Rightarrow> nat list \<Rightarrow> bool" where
  "letterCase t tok = list_all2 (\<lambda>c u. c = u \<or> c = u + 32) t tok"

definition dotlessCase :: "nat list \<Rightarrow> nat list \<Rightarrow> bool" where
  "dotlessCase t tok = list_all2 (\<lambda>c u. c = u \<or> c = u + 32 \<or> (c = 305 \<and> u = 73)) t tok"









text \<open>
  A scripted match: after the session start nobody touches the controls, no random draw
  chases and every random pick is left, and the clock advances four seconds a tick.
  \<open>idleRounds k n\<close> runs the ticks of rounds \<open>k\<close> to \<open>k + n - 1\<close>.
\<close>

definition upIntent :: input where
  "upIntent = \<lparr>up = True, down = False, left = False, right = False\<rparr>"

definition fixedDice :: "nat \<Rightarrow> dice" where
  "fixedDice = (\<lambda>_. \<lparr>chase = False, pick = Left\<rparr>)"

definition clockAt :: "int \<Rightarrow> clock" where
  "clockAt n = \<lparr>atInvulnerability = n, atPowerMode = n, atCollisions = n\<rparr>"

definition startedServer :: server where
  "startedServer = handle (StartGame (Some ''Ana'') (Some ''Bo'')) initialServer"

fun idleRounds :: "nat \<Rightarrow> nat \<Rightarrow> server \<Rightarrow> server" where
  "idleRounds k 0 sv = sv"
| "idleRounds k (Suc n) sv =
     idleRounds (Suc k) n (handle (Tick (clockAt (4000 * int k)) fixedDice) sv)"

definition terminalServer :: server where
  "terminalServer = idleRounds 1 26 startedServer"

text \<open>What a client sees of the outcome, and where player 1 faces.\<close>

definition outcome :: "server \<Rightarrow> bool \<times> string option \<times> int \<times> int \<times> Direction" where
  "outcome sv =
     (gameOver (game sv), winner (game sv), lives (player1 (game sv)), lives (player2 (game sv)),
      direction (player1 (game sv)))"

section \<open>Invariants of the movement and collision phases\<close>

lemma maze_rows: "length MAZE_LAYOUT = 31"
  by (simp add: MAZE_LAYOUT_def)

lemma maze_columns: "length (MAZE_LAYOUT ! 0) = 28"
  by (simp add: MAZE_LAYOUT_def)

lemma movePlayer_inGrid: "inGrid p \<Longrightarrow> inGrid (movePlayer p)"
  by (auto simp: movePlayer_def inGrid_def Let_def maze_rows maze_columns split: prod.splits)

lemma stepGhost_inGrid: "inGrid g \<Longrightarrow> inGrid (stepGhost tgt rnd g)"
  by (auto simp: stepGhost_def inGrid_def Let_def split: prod.splits)

lemma moveGhostsFrom_length: "length (moveGhostsFrom s rnd i gs) = length gs"
  by (induction gs arbitrary: i) simp_all

lemma moveGhostsFrom_inGrid:
  "list_all inGrid gs \<Longrightarrow> list_all inGrid (moveGhostsFrom s rnd i gs)"
  by (induction gs arbitrary: i) (simp_all add: moveGhost_def stepGhost_inGrid)

lemma resetColor_position: "x (resetColor g) = x g \<and> y (resetColor g) = y g"
  by (simp add: resetColor_def restoreOriginal_def split: option.splits)

lemma resetColor_inGrid: "inGrid (resetColor g) = inGrid g"
  by (simp add: inGrid_def resetColor_position)

lemma turnBlue_inGrid: "inGrid (turnBlue g) = inGrid g"
  by (simp add: inGrid_def turnBlue_def)

lemma updateInvulnerability_grid:
  "positionsInGrid s \<Longrightarrow> positionsInGrid (updateInvulnerability now s)"
  by (simp add: positionsInGrid_def updateInvulnerability_def expireInvulnerable_def inGrid_def)

lemma updatePowerMode_grid:
  "positionsInGrid s \<Longrightarrow> positionsInGrid (updatePowerMode now s)"
  by (simp add: positionsInGrid_def updatePowerMode_def list_all_iff resetColor_inGrid)

lemma movePlayers_grid: "positionsInGrid s \<Longrightarrow> positionsInGrid (movePlayers s)"
  by (simp add: positionsInGrid_def movePlayers_def Let_def movePlayer_inGrid)

lemma moveGhosts_grid: "positionsInGrid s \<Longrightarrow> positionsInGrid (moveGhosts rnd s)"
  by (simp add: positionsInGrid_def moveGhosts_def moveGhostsFrom_length moveGhostsFrom_inGrid)

lemma beforeCollisions_grid:
  "positionsInGrid s \<Longrightarrow> positionsInGrid (beforeCollisions t rnd s)"
  by (simp add: beforeCollisions_def moveGhosts_grid movePlayers_grid updatePowerMode_grid
      updateInvulnerability_grid)

text \<open>The dot pass as a filter and two sums.\<close>

lemma onCell_addScore [simp]: "onCell d (addScore n p) = onCell d p"
  by (simp add: onCell_def addScore_def)

lemma addScore_addScore: "addScore a (addScore b p) = addScore (b + a) p"
  by (simp add: addScore_def)

lemma addScore_zero: "addScore 0 p = p"
  by (simp add: addScore_def)

lemma collectDots_filter:
  "collectDots ds p1 p2 =
     (filter (\<lambda>d. \<not> (onCell d p1 \<or> onCell d p2)) ds,
      addScore (10 * int (length (filter (\<lambda>d. onCell d p1) ds))) p1,
      addScore (10 * int (length (filter (\<lambda>d. onCell d p2) ds))) p2)"
proof (induction ds arbitrary: p1 p2)
  case Nil
  show ?case by (simp add: addScore_zero)
next
  case (Cons d ds)
  show ?case
    by (simp add: Cons.IH addScore_addScore addScore_zero Let_def)
qed

lemma inGrid_addScore [simp]: "inGrid (addScore n p) = inGrid p"
  by (simp add: inGrid_def addScore_def)

lemma dotPhase_grid: "positionsInGrid s \<Longrightarrow> positionsInGrid (dotPhase s)"
  by (simp add: dotPhase_def collectDots_filter positionsInGrid_def)

lemma eatPellet_grid: "positionsInGrid s \<Longrightarrow> positionsInGrid (eatPellet now p s)"
  by (simp add: eatPellet_def positionsInGrid_def Let_def list_all_iff turnBlue_inGrid)

lemma collectPellets_grid:
  "positionsInGrid s \<Longrightarrow> positionsInGrid (snd (collectPellets now ps s))"
  by (induction ps arbitrary: s) (simp_all add: eatPellet_grid case_prod_unfold Let_def)

lemma pelletPhase_grid: "positionsInGrid s \<Longrightarrow> positionsInGrid (pelletPhase now s)"
  using collectPellets_grid[of s now "powerPellets s"]
  by (simp add: pelletPhase_def case_prod_unfold Let_def positionsInGrid_def)

lemma restoreOriginal_position: "x (restoreOriginal g) = x g \<and> y (restoreOriginal g) = y g"
  by (simp add: restoreOriginal_def split: option.splits)

lemma collidePlayer1_grid:
  assumes "inGrid g" "inGrid (player1 s)" "inGrid (player2 s)" "i < 4"
  shows "inGrid (fst (collidePlayer1 now i (g, s))) \<and> inGrid (player1 (snd (collidePlayer1 now i (g, s))))
         \<and> inGrid (player2 (snd (collidePlayer1 now i (g, s))))"
  using assms
  by (auto simp: collidePlayer1_def inGrid_def restoreOriginal_position sendHome_def killPlayer1_def addScore_def)

lemma collidePlayer2_grid:
  assumes "inGrid g" "inGrid (player1 s)" "inGrid (player2 s)" "i < 4"
  shows "inGrid (fst (collidePlayer2 now i (g, s))) \<and> inGrid (player1 (snd (collidePlayer2 now i (g, s))))
         \<and> inGrid (player2 (snd (collidePlayer2 now i (g, s))))"
  using assms
  by (auto simp: collidePlayer2_def inGrid_def restoreOriginal_position sendHome_def killPlayer2_def addScore_def)

lemma collideGhost_grid:
  assumes "inGrid g" "inGrid (player1 s)" "inGrid (player2 s)" "i < 4"
  shows "inGrid (fst (collideGhost now i (g, s))) \<and> inGrid (player1 (snd (collideGhost now i (g, s))))
         \<and> inGrid (player2 (snd (collideGhost now i (g, s))))"
  unfolding collideGhost_def
  using collidePlayer2_grid[of "fst (collidePlayer1 now i (g, s))" "snd (collidePlayer1 now i (g, s))" i now]
    collidePlayer1_grid[OF assms, of now]
  by (simp add: assms)

lemma ghostCollisions_grid:
  assumes "list_all inGrid gs" "inGrid (player1 s)" "inGrid (player2 s)" "i + length gs \<le> 4"
  shows "list_all inGrid (fst (ghostCollisions now i gs s))
         \<and> length (fst (ghostCollisions now i gs s)) = length gs
         \<and> inGrid (player1 (snd (ghostCollisions now i gs s)))
         \<and> inGrid (player2 (snd (ghostCollisions now i gs s)))"
  using assms
proof (induction gs arbitrary: i s)
  case Nil
  then show ?case by simp
next
  case (Cons g gs)
  have i4: "i < 4" using Cons.prems by simp
  have g: "inGrid g" and rest: "list_all inGrid gs" using Cons.prems by simp_all
  note c = collideGhost_grid[OF g Cons.prems(2) Cons.prems(3) i4, of now]
  have "Suc i + length gs \<le> 4" using Cons.prems by simp
  from Cons.IH[OF rest _ _ this, of "snd (collideGhost now i (g, s))"] c
  show ?case by (simp add: case_prod_unfold Let_def)
qed

lemma ghostPhase_grid: "positionsInGrid s \<Longrightarrow> positionsInGrid (ghostPhase now s)"
  using ghostCollisions_grid[of "ghosts s" s 0 now]
  by (simp add: ghostPhase_def case_prod_unfold Let_def positionsInGrid_def)

lemma checkGameOver_grid: "positionsInGrid s \<Longrightarrow> positionsInGrid (checkGameOver s)"
  by (simp add: checkGameOver_def positionsInGrid_def Let_def)

lemma gameTick_grid: "positionsInGrid s \<Longrightarrow> positionsInGrid (gameTick t rnd s)"
  by (simp add: gameTick_def checkCollisions_def checkGameOver_grid ghostPhase_grid
      pelletPhase_grid dotPhase_grid beforeCollisions_grid)

lemma updatePlayerDirection_inGrid [simp]: "inGrid (updatePlayerDirection p i) = inGrid p"
  by (simp add: updatePlayerDirection_def inGrid_def)

lemma startGame_grid: "positionsInGrid (startGame n1 n2)"
  by (simp add: startGame_def resetGameState_def positionsInGrid_def inGrid_def newPlayer_def
      newGhosts_def newGhost_def)

lemma initial_grid: "positionsInGrid initialGameState"
  by (simp add: initialGameState_def positionsInGrid_def inGrid_def newPlayer_def
      newGhosts_def newGhost_def)

lemma inputs_grid:
  "positionsInGrid (playerInput n i s) = positionsInGrid s"
  "positionsInGrid (arduinoInput i s) = positionsInGrid s"
  "positionsInGrid (manualPress d s) = positionsInGrid s"
  "positionsInGrid (snd (apiPress od s)) = positionsInGrid s"
  by (simp_all add: playerInput_def arduinoInput_def manualPress_def apiPress_def
      positionsInGrid_def split: option.splits bodyValue.splits)

lemma handle_grid: "positionsInGrid (game sv) \<Longrightarrow> positionsInGrid (game (handle e sv))"
  by (cases e) (simp_all add: gameTick_grid startGame_grid inputs_grid Let_def)

lemma reachable_grid: "reachable sv \<Longrightarrow> positionsInGrid (game sv)"
  by (induction rule: reachable.induct) (simp_all add: initialServer_def initial_grid handle_grid)

section \<open>The dot set through a tick\<close>

lemma rowCells_snd: "c \<in> set (rowCells m cy row) \<Longrightarrow> snd c = int cy"
  by (auto simp: rowCells_def)

lemma rowCells_distinct: "distinct (rowCells m cy row)"
proof -
  have "inj_on (\<lambda>(cx, c). (int cx, int cy)) (set (filter (\<lambda>(cx, c). c = m) (enumerate 0 row)))"
    by (auto simp: inj_on_def in_set_enumerate_eq)
  then show ?thesis
    by (simp add: rowCells_def distinct_map)
qed

lemma rows_distinct:
  "distinct (concat (map (\<lambda>(cy, row). rowCells m cy row) (enumerate n rows)))
   \<and> (\<forall>c \<in> set (concat (map (\<lambda>(cy, row). rowCells m cy row) (enumerate n rows))). int n \<le> snd c)"
proof (induction rows arbitrary: n)
  case Nil
  show ?case by simp
next
  case (Cons r rows)
  have ih: "distinct (concat (map (\<lambda>(cy, row). rowCells m cy row) (enumerate (Suc n) rows)))"
    and above: "\<forall>c \<in> set (concat (map (\<lambda>(cy, row). rowCells m cy row) (enumerate (Suc n) rows))). int (Suc n) \<le> snd c"
    using Cons.IH[of "Suc n"] by blast+
  have disj: "set (rowCells m n r) \<inter> set (concat (map (\<lambda>(cy, row). rowCells m cy row) (enumerate (Suc n) rows))) = {}"
  proof (rule ccontr)
    assume "\<not> ?thesis"
    then obtain c where c1: "c \<in> set (rowCells m n r)"
      and c2: "c \<in> set (concat (map (\<lambda>(cy, row). rowCells m cy row) (enumerate (Suc n) rows)))"
      by blast
    from rowCells_snd[OF c1] above c2 show False by fastforce
  qed
  have low: "\<forall>c \<in> set (rowCells m n r). int n \<le> snd c"
    using rowCells_snd by fastforce
  show ?case
    using ih above disj low rowCells_distinct[of m n r] by fastforce
qed

lemma cellsWith_distinct: "distinct (cellsWith m)"
  using rows_distinct[of m 0 MAZE_LAYOUT] by (simp add: cellsWith_def)

lemma collectPellets_dots: "dots (snd (collectPellets now ps s)) = dots s"
  by (induction ps arbitrary: s) (simp_all add: eatPellet_def case_prod_unfold Let_def)

lemma ghostCollisions_dots: "dots (snd (ghostCollisions now i gs s)) = dots s"
  by (induction gs arbitrary: i s)
     (simp_all add: collideGhost_def collidePlayer1_def collidePlayer2_def case_prod_unfold Let_def)

lemma beforeCollisions_dots: "dots (beforeCollisions t rnd s) = dots s"
  by (simp add: beforeCollisions_def moveGhosts_def movePlayers_def updatePowerMode_def
      updateInvulnerability_def Let_def)

lemma dotPhase_dots:
  "dots (dotPhase s) = filter (\<lambda>d. \<not> (onCell d (player1 s) \<or> onCell d (player2 s))) (dots s)"
  by (simp add: dotPhase_def collectDots_filter)

lemma checkCollisions_dots: "dots (checkCollisions now s) = dots (dotPhase s)"
  by (simp add: checkCollisions_def ghostPhase_def pelletPhase_def case_prod_unfold Let_def
      ghostCollisions_dots collectPellets_dots)

lemma checkGameOver_dots: "dots (checkGameOver s) = dots s"
  by (simp add: checkGameOver_def Let_def)

lemma gameTick_dots:
  "dots (gameTick t rnd s) =
     filter (\<lambda>d. \<not> (onCell d (player1 (beforeCollisions t rnd s))
                     \<or> onCell d (player2 (beforeCollisions t rnd s)))) (dots s)"
  by (simp add: gameTick_def checkGameOver_dots checkCollisions_dots dotPhase_dots
      beforeCollisions_dots)

lemma onCell_eq: "onCell d p = (d = (x p, y p))"
  by (cases d) (auto simp: onCell_def)

lemma two_cells_filter:
  assumes "distinct ds"
  shows "length ds \<le> length (filter (\<lambda>d. \<not> (d = a \<or> d = b)) ds) + 2"
proof -
  have "length (filter (\<lambda>d. d = a \<or> d = b) ds) = card ({d. d = a \<or> d = b} \<inter> set ds)"
    using assms by (simp add: distinct_length_filter)
  also have "\<dots> \<le> card {a, b}"
    by (rule card_mono) auto
  also have "\<dots> \<le> 2"
    by (simp add: card_insert_if)
  finally have "length (filter (\<lambda>d. d = a \<or> d = b) ds) \<le> 2" .
  moreover have "length ds = length (filter (\<lambda>d. d = a \<or> d = b) ds)
      + length (filter (\<lambda>d. \<not> (d = a \<or> d = b)) ds)"
    using sum_length_filter_compl[of "\<lambda>d. d = a \<or> d = b" ds] by simp
  ultimately show ?thesis by linarith
qed

lemma one_cell_filter:
  assumes "distinct ds" "a \<in> set ds"
  shows "length (filter (\<lambda>d. d = a) ds) = 1"
proof -
  have "length (filter (\<lambda>d. d = a) ds) = card ({d. d = a} \<inter> set ds)"
    using assms by (simp add: distinct_length_filter)
  also have "{d. d = a} \<inter> set ds = {a}" using assms by auto
  finally show ?thesis by simp
qed

lemma handle_distinct: "distinct (dots (game sv)) \<Longrightarrow> distinct (dots (game (handle e sv)))"
  by (cases e)
     (simp_all add: gameTick_dots playerInput_def arduinoInput_def manualPress_def apiPress_def
        startGame_def resetGameState_def cellsWith_distinct Let_def split: option.splits bodyValue.splits)

lemma reachable_distinct: "reachable sv \<Longrightarrow> distinct (dots (game sv))"
  by (induction rule: reachable.induct)
     (simp_all add: initialServer_def initialGameState_def handle_distinct)

section \<open>Ghost collisions in power mode\<close>
















section \<open>The claims\<close>

subsection \<open>C1: axis choice of a targeted ghost step\<close>

text \<open>
  C1, as stated, fails on a tie: with \<open>|\<Delta>x| = |\<Delta>y|\<close> the code takes the \<open>else\<close> branch of
  \<open>Math.abs(deltaX) > Math.abs(deltaY)\<close> and moves vertically. A ghost at (5,5) with
  target (6,6) goes down to (5,6) and faces down; it does not move horizontally.
\<close>

theorem C1_tie_counterexample:
  "direction (stepGhost (Some (6, 6)) Up (newGhost 5 5 Up ''red'')) = Down
   \<and> x (stepGhost (Some (6, 6)) Up (newGhost 5 5 Up ''red'')) = 5
   \<and> y (stepGhost (Some (6, 6)) Up (newGhost 5 5 Up ''red'')) = 6"
  by (simp add: stepGhost_def attempt_def newGhost_def tunnel_def)

text \<open>
  C1, amended: for a ghost inside the grid and a present target, the step is horizontal
  exactly when \<open>|\<Delta>x| > |\<Delta>y|\<close> (right when \<open>\<Delta>x > 0\<close>, else left, through the tunnel at the
  edges) and vertical otherwise, a tie included (down when \<open>\<Delta>y > 0\<close>, else up). The
  facing direction is that of the attempted move in every case, also when the move leaves
  the grid at the top or bottom row and the position stays as it was.
\<close>

theorem C1_ghost_axis:
  assumes "0 \<le> x g" "x g \<le> 27" "0 \<le> y g" "y g \<le> 30"
  shows "(\<bar>tx - x g\<bar> > \<bar>ty - y g\<bar> \<longrightarrow>
            direction (stepGhost (Some (tx, ty)) rnd g) = (if tx > x g then Right else Left)
          \<and> y (stepGhost (Some (tx, ty)) rnd g) = y g
          \<and> x (stepGhost (Some (tx, ty)) rnd g) =
              (if tx > x g then (if x g = 27 then 0 else x g + 1)
               else (if x g = 0 then 27 else x g - 1)))
       \<and> (\<bar>tx - x g\<bar> \<le> \<bar>ty - y g\<bar> \<longrightarrow>
            direction (stepGhost (Some (tx, ty)) rnd g) = (if ty > y g then Down else Up)
          \<and> x (stepGhost (Some (tx, ty)) rnd g) = x g
          \<and> y (stepGhost (Some (tx, ty)) rnd g) =
              (if ty > y g then (if y g = 30 then 30 else y g + 1)
               else (if y g = 0 then 0 else y g - 1)))"
  using assms by (auto simp: stepGhost_def attempt_def tunnel_def Let_def)

text \<open>
  A ghost on the top row fleeing upwards on a tie: the move to row \<open>-1\<close> is rejected, the
  ghost stays at (5,0) and still turns up. A ghost in the last column with a target further
  right steps through the tunnel to column 0.
\<close>

theorem C1_ghost_axis_witness:
  "direction (stepGhost (Some (3, -2)) Down (newGhost 5 0 Right ''red'')) = Up
   \<and> x (stepGhost (Some (3, -2)) Down (newGhost 5 0 Right ''red'')) = 5
   \<and> y (stepGhost (Some (3, -2)) Down (newGhost 5 0 Right ''red'')) = 0
   \<and> direction (stepGhost (Some (29, 4)) Down (newGhost 27 3 Up ''pink'')) = Right
   \<and> x (stepGhost (Some (29, 4)) Down (newGhost 27 3 Up ''pink'')) = 0
   \<and> y (stepGhost (Some (29, 4)) Down (newGhost 27 3 Up ''pink'')) = 3"
  using C1_ghost_axis [where g = "newGhost 5 0 Right ''red''" and tx = 3 and ty = "-2" and rnd = Down]
    C1_ghost_axis [where g = "newGhost 27 3 Up ''pink''" and tx = 29 and ty = 4 and rnd = Down]
  by (simp add: newGhost_def)

subsection \<open>C2: what still happens once the match is over\<close>

lemma inputs_gameOver:
  "gameOver (playerInput n i s) = gameOver s"
  "gameOver (arduinoInput i s) = gameOver s"
  "gameOver (manualPress d s) = gameOver s"
  "gameOver (snd (apiPress od s)) = gameOver s"
  by (simp_all add: playerInput_def arduinoInput_def manualPress_def apiPress_def
      split: option.splits bodyValue.splits)

lemma startGame_running: "\<not> gameOver (startGame n1 n2)"
  by (simp add: startGame_def resetGameState_def)

lemma handle_clock:
  assumes "gameOver (game sv) \<longrightarrow> \<not> gameLoopInterval sv"
  shows "gameOver (game (handle e sv)) \<longrightarrow> \<not> gameLoopInterval (handle e sv)"
  using assms by (cases e) (simp_all add: inputs_gameOver startGame_running Let_def)

lemma reachable_clock: "reachable sv \<Longrightarrow> gameOver (game sv) \<longrightarrow> \<not> gameLoopInterval sv"
proof (induction rule: reachable.induct)
  case start
  show ?case by (simp add: initialServer_def initialGameState_def)
next
  case (step sv e)
  from step.IH show ?case by (rule handle_clock)
qed

lemma inputs_turn:
  "turnsPlayer1 s (playerInput 1 i s)"
  "turnsPlayer2 s (playerInput 2 i s)"
  "n \<noteq> 1 \<Longrightarrow> n \<noteq> 2 \<Longrightarrow> playerInput n i s = s"
  "turnsPlayer1 s (arduinoInput i s)"
  "turnsPlayer1 s (manualPress d s)"
  "turnsPlayer1 s (snd (apiPress od s))"
  by (simp_all add: turnsPlayer1_def turnsPlayer2_def playerInput_def arduinoInput_def
      manualPress_def apiPress_def updatePlayerDirection_def split: option.splits bodyValue.splits)

lemma idleRounds_reachable: "reachable sv \<Longrightarrow> reachable (idleRounds k n sv)"
  by (induction n arbitrary: k sv) (simp_all add: reachable.step del: handle.simps)

lemma terminalServer_reachable: "reachable terminalServer"
  unfolding terminalServer_def startedServer_def
  by (intro idleRounds_reachable reachable.step reachable.start)

text \<open>
  The scripted match ends with the tick of round 26: it takes the last life of player 1,
  who is put back on the spawn cell facing right, and player 2 wins with three lives.
\<close>

lemma terminalServer_outcome: "outcome terminalServer = (True, Some ''Bo'', 0, 3, Right)"
  by code_simp

lemma terminalServer_over:
  "gameOver (game terminalServer) \<and> direction (player1 (game terminalServer)) = Right"
  using terminalServer_outcome by (simp add: outcome_def)

text \<open>
  C2, as stated, fails for the input operations: no handler looks at \<open>gameOver\<close>. The
  scripted match is over after round 26, and a player-direction event then still turns
  player 1 from right to up.
\<close>

theorem C2_input_after_end_counterexample:
  "gameOver (game terminalServer)
   \<and> handle (PlayerInput 1 upIntent) terminalServer \<noteq> terminalServer"
proof -
  have "direction (player1 (game (handle (PlayerInput 1 upIntent) terminalServer))) = Up"
    by (simp add: playerInput_def updatePlayerDirection_def upIntent_def)
  then have "handle (PlayerInput 1 upIntent) terminalServer \<noteq> terminalServer"
    using terminalServer_over by (auto simp del: handle.simps)
  then show ?thesis using terminalServer_over by blast
qed

text \<open>
  C2, amended: in a reachable state whose match is over the timer of the game loop has
  been cleared, so a tick leaves the state as it is. The input events are still applied.
  A player-direction event for player 1 changes at most the facing direction of player 1,
  one for player 2 at most that of player 2, and one for any other index changes nothing;
  the bridge, manual-press and administrative events change at most the facing direction
  of player 1. Every other field of the match state, and the timer, stay as they were.
\<close>

theorem C2_terminal_state:
  assumes "reachable sv" "gameOver (game sv)"
  shows "\<not> gameLoopInterval sv \<and> handle (Tick t rnd) sv = sv
       \<and> (n = 1 \<longrightarrow> turnsPlayer1 (game sv) (game (handle (PlayerInput n i) sv)))
       \<and> (n = 2 \<longrightarrow> turnsPlayer2 (game sv) (game (handle (PlayerInput n i) sv)))
       \<and> (n \<noteq> 1 \<and> n \<noteq> 2 \<longrightarrow> handle (PlayerInput n i) sv = sv)
       \<and> gameLoopInterval (handle (PlayerInput n i) sv) = gameLoopInterval sv
       \<and> turnsPlayer1 (game sv) (game (handle (ArduinoInput i) sv))
       \<and> gameLoopInterval (handle (ArduinoInput i) sv) = gameLoopInterval sv
       \<and> turnsPlayer1 (game sv) (game (handle (ManualPress d) sv))
       \<and> gameLoopInterval (handle (ManualPress d) sv) = gameLoopInterval sv
       \<and> turnsPlayer1 (game sv) (game (handle (ApiPress od) sv))
       \<and> gameLoopInterval (handle (ApiPress od) sv) = gameLoopInterval sv"
proof -
  have stopped: "\<not> gameLoopInterval sv"
    using reachable_clock [OF assms(1)] assms(2) by blast
  then have "handle (Tick t rnd) sv = sv" by simp
  with stopped show ?thesis by (simp add: inputs_turn)
qed

text \<open>
  The end of the scripted match, then a tick, a direction event of player 1, one of
  player 2, one with the index 3, and the bridge event.
\<close>

theorem C2_terminal_state_witness:
  "reachable terminalServer \<and> gameOver (game terminalServer)
   \<and> \<not> gameLoopInterval terminalServer
   \<and> handle (Tick (clockAt 0) fixedDice) terminalServer = terminalServer
   \<and> turnsPlayer1 (game terminalServer) (game (handle (PlayerInput 1 upIntent) terminalServer))
   \<and> turnsPlayer2 (game terminalServer) (game (handle (PlayerInput 2 upIntent) terminalServer))
   \<and> handle (PlayerInput 3 upIntent) terminalServer = terminalServer
   \<and> turnsPlayer1 (game terminalServer) (game (handle (ArduinoInput upIntent) terminalServer))"
proof -
  have over: "gameOver (game terminalServer)"
    using terminalServer_over by blast
  have "\<not> gameLoopInterval terminalServer
   \<and> handle (Tick (clockAt 0) fixedDice) terminalServer = terminalServer
   \<and> turnsPlayer1 (game terminalServer) (game (handle (PlayerInput 1 upIntent) terminalServer))
   \<and> turnsPlayer1 (game terminalServer) (game (handle (ArduinoInput upIntent) terminalServer))"
    using C2_terminal_state [OF terminalServer_reachable over, where n = 1]
    by (simp del: handle.simps)
  moreover have "turnsPlayer2 (game terminalServer) (game (handle (PlayerInput 2 upIntent) terminalServer))"
    using C2_terminal_state [OF terminalServer_reachable over, where n = 2]
    by (simp del: handle.simps)
  moreover have "handle (PlayerInput 3 upIntent) terminalServer = terminalServer"
    using C2_terminal_state [OF terminalServer_reachable over, where n = 3]
    by (simp del: handle.simps)
  ultimately show ?thesis
    using terminalServer_reachable over by (simp del: handle.simps)
qed

subsection \<open>C3: a single survivor wins\<close>

text \<open>
  C3: when exactly one player has no lives left, \<open>checkGameOver\<close> ends the match and names
  the survivor (the positional default when the name is absent or empty), whatever the
  scores and whatever the earlier checks of the same call wrote.
\<close>

theorem C3_survivor_wins:
  "(lives (player1 s) \<le> 0 \<and> lives (player2 s) > 0 \<longrightarrow>
      gameOver (checkGameOver s) \<and>
      winner (checkGameOver s) =
        Some (case name (player2 s) of None \<Rightarrow> ''Player 2''
              | Some n \<Rightarrow> if n = [] then ''Player 2'' else n))
   \<and> (lives (player2 s) \<le> 0 \<and> lives (player1 s) > 0 \<longrightarrow>
      gameOver (checkGameOver s) \<and>
      winner (checkGameOver s) =
        Some (case name (player1 s) of None \<Rightarrow> ''Player 1''
              | Some n \<Rightarrow> if n = [] then ''Player 1'' else n))"
  by (auto simp: checkGameOver_def orElse_def Let_def)

text \<open>
  No dots and no pellets are left, the dead player 1 leads 500 to 0, and player 2, whose
  name is empty, still wins as "Player 2". With the roles swapped, Ana wins with no points
  against 500.
\<close>

theorem C3_survivor_wins_witness:
  "gameOver (checkGameOver (initialGameState
      \<lparr>player1 := (newPlayer 1 1 Right (Some ''Ana''))\<lparr>lives := 0, score := 500\<rparr>,
       player2 := (newPlayer 26 1 Left (Some []))\<lparr>lives := 3\<rparr>\<rparr>))
   \<and> winner (checkGameOver (initialGameState
      \<lparr>player1 := (newPlayer 1 1 Right (Some ''Ana''))\<lparr>lives := 0, score := 500\<rparr>,
       player2 := (newPlayer 26 1 Left (Some []))\<lparr>lives := 3\<rparr>\<rparr>)) = Some ''Player 2''
   \<and> winner (checkGameOver (initialGameState
      \<lparr>player1 := (newPlayer 1 1 Right (Some ''Ana''))\<lparr>lives := 1\<rparr>,
       player2 := (newPlayer 26 1 Left None)\<lparr>lives := 0, score := 500\<rparr>\<rparr>)) = Some ''Ana''"
  using C3_survivor_wins [where s = "initialGameState
      \<lparr>player1 := (newPlayer 1 1 Right (Some ''Ana''))\<lparr>lives := 0, score := 500\<rparr>,
       player2 := (newPlayer 26 1 Left (Some []))\<lparr>lives := 3\<rparr>\<rparr>"]
    C3_survivor_wins [where s = "initialGameState
      \<lparr>player1 := (newPlayer 1 1 Right (Some ''Ana''))\<lparr>lives := 1\<rparr>,
       player2 := (newPlayer 26 1 Left None)\<lparr>lives := 0, score := 500\<rparr>\<rparr>"]
  by (simp add: initialGameState_def newPlayer_def)

subsection \<open>C4: expiry of power mode and invulnerability\<close>

text \<open>
  C4, as stated, fails at the threshold: the code compares with \<open>>\<close>, so at exactly
  10000 ms power mode is still on, and at exactly 3000 ms the player is still invulnerable.
\<close>

theorem C4_boundary_counterexample:
  "powerMode (updatePowerMode 10000 (initialGameState\<lparr>powerMode := True, powerModeTime := 0\<rparr>))
   \<and> invulnerable (player1 (updateInvulnerability 3000
        (initialGameState\<lparr>player1 := (newPlayer 1 1 Right None)\<lparr>invulnerable := True, invulnerableTime := 0\<rparr>\<rparr>)))"
  by (simp add: updatePowerMode_def updateInvulnerability_def expireInvulnerable_def
      initialGameState_def newPlayer_def)

text \<open>
  C4, amended: power mode is on after \<open>updatePowerMode\<close> exactly when it was on and
  \<open>now - powerModeTime \<le> 10000\<close>; when it goes off, every blue ghost that carries a
  non-empty original colour gets it back and loses the slot, and otherwise the state is
  untouched. A player is invulnerable after \<open>updateInvulnerability\<close> exactly when they
  were and \<open>now - invulnerableTime \<le> 3000\<close>. At the threshold itself both effects are
  still active.
\<close>

theorem C4_timers:
  "powerMode (updatePowerMode now s) = (powerMode s \<and> now - powerModeTime s \<le> 10000)
   \<and> (powerMode s \<and> now - powerModeTime s > 10000 \<and> i < length (ghosts s)
        \<and> color (ghosts s ! i) = ''blue'' \<and> originalColor (ghosts s ! i) = Some c \<and> c \<noteq> [] \<longrightarrow>
        length (ghosts (updatePowerMode now s)) = length (ghosts s)
        \<and> color (ghosts (updatePowerMode now s) ! i) = c
        \<and> originalColor (ghosts (updatePowerMode now s) ! i) = None)
   \<and> (\<not> (powerMode s \<and> now - powerModeTime s > 10000) \<longrightarrow> updatePowerMode now s = s)
   \<and> invulnerable (player1 (updateInvulnerability now s)) =
        (invulnerable (player1 s) \<and> now - invulnerableTime (player1 s) \<le> 3000)
   \<and> invulnerable (player2 (updateInvulnerability now s)) =
        (invulnerable (player2 s) \<and> now - invulnerableTime (player2 s) \<le> 3000)"
  by (auto simp: updatePowerMode_def updateInvulnerability_def expireInvulnerable_def
      resetColor_def restoreOriginal_def)

text \<open>
  Power mode started at 5000 with one blue ghost that was red. At 15000 nothing changes;
  at 15001 power mode is off and the ghost is red again, its slot empty.
\<close>

theorem C4_timers_witness:
  "updatePowerMode 15000 (initialGameState
       \<lparr>powerMode := True, powerModeTime := 5000,
        ghosts := [(newGhost 3 4 Up ''blue'')\<lparr>originalColor := Some ''red''\<rparr>]\<rparr>)
     = initialGameState
       \<lparr>powerMode := True, powerModeTime := 5000,
        ghosts := [(newGhost 3 4 Up ''blue'')\<lparr>originalColor := Some ''red''\<rparr>]\<rparr>
   \<and> \<not> powerMode (updatePowerMode 15001 (initialGameState
       \<lparr>powerMode := True, powerModeTime := 5000,
        ghosts := [(newGhost 3 4 Up ''blue'')\<lparr>originalColor := Some ''red''\<rparr>]\<rparr>))
   \<and> color (ghosts (updatePowerMode 15001 (initialGameState
       \<lparr>powerMode := True, powerModeTime := 5000,
        ghosts := [(newGhost 3 4 Up ''blue'')\<lparr>originalColor := Some ''red''\<rparr>]\<rparr>)) ! 0) = ''red''
   \<and> originalColor (ghosts (updatePowerMode 15001 (initialGameState
       \<lparr>powerMode := True, powerModeTime := 5000,
        ghosts := [(newGhost 3 4 Up ''blue'')\<lparr>originalColor := Some ''red''\<rparr>]\<rparr>)) ! 0) = None"
  using C4_timers [where now = 15001 and i = 0 and c = "''red''" and s = "initialGameState
       \<lparr>powerMode := True, powerModeTime := 5000,
        ghosts := [(newGhost 3 4 Up ''blue'')\<lparr>originalColor := Some ''red''\<rparr>]\<rparr>"]
    C4_timers [where now = 15000 and i = 0 and c = "''red''" and s = "initialGameState
       \<lparr>powerMode := True, powerModeTime := 5000,
        ghosts := [(newGhost 3 4 Up ''blue'')\<lparr>originalColor := Some ''red''\<rparr>]\<rparr>"]
  by (simp add: newGhost_def)

subsection \<open>C5: the player step\<close>



subsection \<open>C6: positions stay in the grid\<close>

lemma stepFrom_row: "\<bar>snd (stepFrom d (a, b)) - b\<bar> \<le> 1"
  by (cases d) simp_all

lemma movePlayer_row: "\<bar>y (movePlayer p) - y p\<bar> \<le> 1"
  using stepFrom_row [of "direction p" "x p" "y p"]
  by (simp add: movePlayer_def Let_def case_prod_unfold)

lemma attempt_row: "\<bar>snd (fst (attempt tgt rnd g)) - y g\<bar> \<le> 1"
proof (cases tgt)
  case None
  then show ?thesis using stepFrom_row [of rnd "x g" "y g"] by (simp add: attempt_def)
next
  case (Some t)
  then show ?thesis by (cases t) (simp add: attempt_def Let_def)
qed

lemma stepGhost_row: "\<bar>y (stepGhost tgt rnd g) - y g\<bar> \<le> 1"
  using attempt_row [of tgt rnd g]
  by (simp add: stepGhost_def Let_def case_prod_unfold)

lemma tunnel_cases:
  "(n < 0 \<longrightarrow> tunnel n = 27) \<and> (n > 27 \<longrightarrow> tunnel n = 0) \<and> (0 \<le> n \<and> n \<le> 27 \<longrightarrow> tunnel n = n)"
  by (simp add: tunnel_def Let_def)

text \<open>
  C6: in every state the server can reach, both players and the four ghosts are at
  columns 0..27 and rows 0..30. The tunnel sends a column left of the grid to 27 and one
  right of it to 0 and leaves the others alone; no step of a player or a ghost changes
  the row by more than one, so there is no vertical wraparound.
\<close>

theorem C6_positions_in_grid:
  assumes "reachable sv"
  shows "(0 \<le> x (player1 (game sv)) \<and> x (player1 (game sv)) \<le> 27
          \<and> 0 \<le> y (player1 (game sv)) \<and> y (player1 (game sv)) \<le> 30)
       \<and> (0 \<le> x (player2 (game sv)) \<and> x (player2 (game sv)) \<le> 27
          \<and> 0 \<le> y (player2 (game sv)) \<and> y (player2 (game sv)) \<le> 30)
       \<and> length (ghosts (game sv)) = 4
       \<and> (\<forall>g \<in> set (ghosts (game sv)). 0 \<le> x g \<and> x g \<le> 27 \<and> 0 \<le> y g \<and> y g \<le> 30)
       \<and> (n < 0 \<longrightarrow> tunnel n = 27) \<and> (n > 27 \<longrightarrow> tunnel n = 0)
       \<and> (0 \<le> n \<and> n \<le> 27 \<longrightarrow> tunnel n = n)
       \<and> \<bar>y (movePlayer p) - y p\<bar> \<le> 1
       \<and> \<bar>y (stepGhost tgt rnd gh) - y gh\<bar> \<le> 1"
proof -
  have grid: "positionsInGrid (game sv)"
    by (rule reachable_grid [OF assms])
  have players: "inGrid (player1 (game sv))" "inGrid (player2 (game sv))"
    and four: "length (ghosts (game sv)) = 4"
    and all: "\<forall>g \<in> set (ghosts (game sv)). inGrid g"
    using grid by (simp_all add: positionsInGrid_def list_all_iff)
  show ?thesis
    using players four all tunnel_cases [of n] movePlayer_row [of p] stepGhost_row [of tgt rnd gh]
    by (simp add: inGrid_def)
qed

text \<open>The state after a session start and one tick of the scripted match.\<close>

theorem C6_positions_in_grid_witness:
  "reachable (handle (Tick (clockAt 0) fixedDice) startedServer)
   \<and> 0 \<le> x (player1 (game (handle (Tick (clockAt 0) fixedDice) startedServer)))
   \<and> x (player1 (game (handle (Tick (clockAt 0) fixedDice) startedServer))) \<le> 27
   \<and> length (ghosts (game (handle (Tick (clockAt 0) fixedDice) startedServer))) = 4
   \<and> tunnel (- 1) = 27 \<and> tunnel 28 = 0"
proof -
  have r: "reachable (handle (Tick (clockAt 0) fixedDice) startedServer)"
    unfolding startedServer_def by (intro reachable.step reachable.start)
  have t: "tunnel (- 1) = 27 \<and> tunnel 28 = 0"
    by (simp add: tunnel_def)
  have "0 \<le> x (player1 (game (handle (Tick (clockAt 0) fixedDice) startedServer)))
   \<and> x (player1 (game (handle (Tick (clockAt 0) fixedDice) startedServer))) \<le> 27
   \<and> length (ghosts (game (handle (Tick (clockAt 0) fixedDice) startedServer))) = 4"
    using C6_positions_in_grid [OF r] by (simp del: handle.simps)
  with r t show ?thesis by (simp del: handle.simps)
qed

subsection \<open>C7: the dot set only shrinks, by at most two a tick\<close>

lemma shared_dot:
  assumes dist: "distinct (dots m)"
    and sx: "x (player1 m) = x (player2 m)" and sy: "y (player1 m) = y (player2 m)"
    and mem: "(x (player1 m), y (player1 m)) \<in> set (dots m)"
  shows "length (dots (dotPhase m)) + 1 = length (dots m)
       \<and> score (player1 (dotPhase m)) = score (player1 m) + 10
       \<and> score (player2 (dotPhase m)) = score (player2 m) + 10"
proof -
  let ?a = "(x (player1 m), y (player1 m))"
  have one: "length (filter (\<lambda>d. d = ?a) (dots m)) = 1"
    by (rule one_cell_filter [OF dist mem])
  have split: "length (dots m) = length (filter (\<lambda>d. d = ?a) (dots m))
      + length (filter (\<lambda>d. \<not> d = ?a) (dots m))"
    using sum_length_filter_compl [of "\<lambda>d. d = ?a" "dots m"] by simp
  have kept: "dots (dotPhase m) = filter (\<lambda>d. \<not> d = ?a) (dots m)"
    using sx sy by (simp add: dotPhase_dots onCell_eq)
  have s1: "score (player1 (dotPhase m)) = score (player1 m) + 10"
    using one by (simp add: dotPhase_def collectDots_filter onCell_eq addScore_def)
  have s2: "score (player2 (dotPhase m)) = score (player2 m) + 10"
    using one sx sy by (simp add: dotPhase_def collectDots_filter onCell_eq addScore_def)
  show ?thesis using one split kept s1 s2 by simp
qed

text \<open>
  C7: for every reachable state and every tick, the dots afterwards are among the dots
  before and at most two are gone. In a state whose dots are pairwise distinct, as they
  are in every reachable state and throughout its ticks, a dot on which both players
  stand is removed once by the dot pass and adds 10 to each player's score.
\<close>

theorem C7_dots_shrink:
  assumes "reachable sv"
  shows "set (dots (game (handle (Tick t rnd) sv))) \<subseteq> set (dots (game sv))
       \<and> length (dots (game sv)) \<le> length (dots (game (handle (Tick t rnd) sv))) + 2
       \<and> distinct (dots (beforeCollisions t rnd (game sv)))
       \<and> (distinct (dots m) \<and> x (player1 m) = x (player2 m) \<and> y (player1 m) = y (player2 m)
          \<and> (x (player1 m), y (player1 m)) \<in> set (dots m)
          \<longrightarrow> length (dots (dotPhase m)) + 1 = length (dots m)
              \<and> score (player1 (dotPhase m)) = score (player1 m) + 10
              \<and> score (player2 (dotPhase m)) = score (player2 m) + 10)"
proof -
  let ?m = "beforeCollisions t rnd (game sv)"
  let ?a = "(x (player1 ?m), y (player1 ?m))"
  let ?b = "(x (player2 ?m), y (player2 ?m))"
  have dist: "distinct (dots (game sv))"
    by (rule reachable_distinct [OF assms])
  have tick: "dots (game (handle (Tick t rnd) sv)) = dots (game sv)
      \<or> dots (game (handle (Tick t rnd) sv)) = filter (\<lambda>d. \<not> (d = ?a \<or> d = ?b)) (dots (game sv))"
    by (simp add: gameTick_dots onCell_eq Let_def)
  have sub: "set (dots (game (handle (Tick t rnd) sv))) \<subseteq> set (dots (game sv))"
    using tick by auto
  have le: "length (dots (game sv)) \<le> length (dots (game (handle (Tick t rnd) sv))) + 2"
    using tick two_cells_filter [OF dist, of ?a ?b] by auto
  have before: "distinct (dots ?m)"
    using dist by (simp add: beforeCollisions_dots)
  from sub le before shared_dot [of m] show ?thesis by blast
qed

text \<open>
  The first tick of the scripted match: player 1 steps to (2,1), player 2 to (25,1), and
  each eats the dot there, so exactly two dots go. With both players on (14,5) and dots
  on (14,5) and (3,3), the dot pass leaves one dot and both players score 10.
\<close>

theorem C7_dots_shrink_witness:
  "reachable startedServer
   \<and> set (dots (game (handle (Tick (clockAt 0) fixedDice) startedServer)))
       \<subseteq> set (dots (game startedServer))
   \<and> length (dots (game (handle (Tick (clockAt 0) fixedDice) startedServer))) + 2
       = length (dots (game startedServer))
   \<and> length (dots (dotPhase (initialGameState
        \<lparr>dots := [(14, 5), (3, 3)], player1 := newPlayer 14 5 Right None,
         player2 := newPlayer 14 5 Left None\<rparr>))) = 1
   \<and> score (player1 (dotPhase (initialGameState
        \<lparr>dots := [(14, 5), (3, 3)], player1 := newPlayer 14 5 Right None,
         player2 := newPlayer 14 5 Left None\<rparr>))) = 10
   \<and> score (player2 (dotPhase (initialGameState
        \<lparr>dots := [(14, 5), (3, 3)], player1 := newPlayer 14 5 Right None,
         player2 := newPlayer 14 5 Left None\<rparr>))) = 10"
proof -
  have r: "reachable startedServer"
    unfolding startedServer_def by (intro reachable.step reachable.start)
  have two: "length (dots (game (handle (Tick (clockAt 0) fixedDice) startedServer))) + 2
       = length (dots (game startedServer))"
    by code_simp
  have sub: "set (dots (game (handle (Tick (clockAt 0) fixedDice) startedServer)))
       \<subseteq> set (dots (game startedServer))"
    using C7_dots_shrink [OF r] by (simp del: handle.simps)
  have shared: "length (dots (dotPhase (initialGameState
        \<lparr>dots := [(14, 5), (3, 3)], player1 := newPlayer 14 5 Right None,
         player2 := newPlayer 14 5 Left None\<rparr>))) = 1
   \<and> score (player1 (dotPhase (initialGameState
        \<lparr>dots := [(14, 5), (3, 3)], player1 := newPlayer 14 5 Right None,
         player2 := newPlayer 14 5 Left None\<rparr>))) = 10
   \<and> score (player2 (dotPhase (initialGameState
        \<lparr>dots := [(14, 5), (3, 3)], player1 := newPlayer 14 5 Right None,
         player2 := newPlayer 14 5 Left None\<rparr>))) = 10"
    using C7_dots_shrink [OF r, where m = "initialGameState
        \<lparr>dots := [(14, 5), (3, 3)], player1 := newPlayer 14 5 Right None,
         player2 := newPlayer 14 5 Left None\<rparr>"]
    by (simp add: newPlayer_def initialGameState_def del: handle.simps)
  from r two sub shared show ?thesis by (simp del: handle.simps)
qed

subsection \<open>C8: the administrative direction endpoint\<close>

lemma token_codes:
  "codes ''UP'' = [85, 80]"
  "codes ''DOWN'' = [68, 79, 87, 78]"
  "codes ''LEFT'' = [76, 69, 70, 84]"
  "codes ''RIGHT'' = [82, 73, 71, 72, 84]"
  by (simp_all add: codes_def)

lemma upperPoint_letter:
  assumes "65 \<le> u" "u \<le> 90" "c = u \<or> c = u + 32 \<or> (c = 305 \<and> u = 73)"
  shows "upperPoint c = [u]"
  using assms by (auto simp: upperPoint_def specialUpper_def)

lemma dotlessCase_upper:
  assumes "list_all2 (\<lambda>c u. c = u \<or> c = u + 32 \<or> (c = 305 \<and> u = 73)) t tok"
    and "\<forall>u \<in> set tok. 65 \<le> u \<and> u \<le> 90"
  shows "concat (map upperPoint t) = tok"
  using assms by (induction rule: list_all2_induct) (simp_all add: upperPoint_letter)

lemma upperPoint_single:
  assumes "upperPoint c = [u]" "65 \<le> u" "u \<le> 90" "u \<noteq> 83"
  shows "c = u \<or> c = u + 32 \<or> (c = 305 \<and> u = 73)"
  using assms by (auto simp: upperPoint_def specialUpper_def split: if_splits)

lemma upperPoint_long:
  assumes "upperPoint c = a # b # rest"
  shows "(a, b) \<in> {(83, 83), (700, 78), (74, 780), (72, 817), (84, 776), (87, 778), (89, 778),
                    (65, 702), (70, 70), (70, 73), (70, 76), (83, 84)}"
  using assms by (auto simp: upperPoint_def specialUpper_def split: if_splits)

lemma upperPoint_nonempty: "upperPoint c \<noteq> []"
  by (auto simp: upperPoint_def specialUpper_def)


text \<open>The direction tokens and their tails, read from the end.\<close>

lemma upper_tail:
  assumes "concat (map upperPoint t) = us"
    and "us \<in> {[], [80], [85, 80], [78], [87, 78], [79, 87, 78], [68, 79, 87, 78],
                [84], [70, 84], [69, 70, 84], [76, 69, 70, 84],
                [72, 84], [71, 72, 84], [73, 71, 72, 84], [82, 73, 71, 72, 84]}"
  shows "list_all2 (\<lambda>c u. c = u \<or> c = u + 32 \<or> (c = 305 \<and> u = 73)) t us"
  using assms
proof (induction t arbitrary: us)
  case Nil
  then show ?case by simp
next
  case (Cons c cs)
  obtain a rest where ac: "upperPoint c = a # rest"
    using upperPoint_nonempty [of c] by (cases "upperPoint c") auto
  show ?case
  proof (cases rest)
    case Nil
    from Cons.prems(1) ac Nil have us: "us = a # concat (map upperPoint cs)" by simp
    from us Cons.prems(2)
    have tail: "concat (map upperPoint cs) \<in> {[], [80], [85, 80], [78], [87, 78], [79, 87, 78],
                [68, 79, 87, 78], [84], [70, 84], [69, 70, 84], [76, 69, 70, 84],
                [72, 84], [71, 72, 84], [73, 71, 72, 84], [82, 73, 71, 72, 84]}"
      and letter: "65 \<le> a \<and> a \<le> 90 \<and> a \<noteq> 83"
      by auto
    have one: "upperPoint c = [a]" using ac Nil by simp
    have "c = a \<or> c = a + 32 \<or> (c = 305 \<and> a = 73)"
      using upperPoint_single [OF one] letter by blast
    moreover have "list_all2 (\<lambda>c u. c = u \<or> c = u + 32 \<or> (c = 305 \<and> u = 73)) cs
        (concat (map upperPoint cs))"
      by (rule Cons.IH [OF refl tail])
    ultimately show ?thesis using us by simp
  next
    case (Cons b r)
    from Cons.prems(1) ac Cons have us: "us = a # b # (r @ concat (map upperPoint cs))" by simp
    have "(a, b) \<in> {(83, 83), (700, 78), (74, 780), (72, 817), (84, 776), (87, 778), (89, 778),
                    (65, 702), (70, 70), (70, 73), (70, 76), (83, 84)}"
      using upperPoint_long [of c a b r] ac Cons by simp
    with us Cons.prems(2) show ?thesis by auto
  qed
qed

lemma tokens_upper:
  "(toUpperCase t \<in> set directionTokens) = (\<exists>tok \<in> set directionTokens. dotlessCase t tok)"
proof
  assume "toUpperCase t \<in> set directionTokens"
  then have "dotlessCase t (toUpperCase t)"
    unfolding dotlessCase_def toUpperCase_def
    by (intro upper_tail [OF refl]) (auto simp: directionTokens_def token_codes)
  with \<open>toUpperCase t \<in> set directionTokens\<close> show "\<exists>tok \<in> set directionTokens. dotlessCase t tok"
    by blast
next
  assume "\<exists>tok \<in> set directionTokens. dotlessCase t tok"
  then obtain tok where tok: "tok \<in> set directionTokens" and d: "dotlessCase t tok" by blast
  have "\<forall>u \<in> set tok. 65 \<le> u \<and> u \<le> 90"
    using tok by (auto simp: directionTokens_def token_codes)
  with d have "toUpperCase t = tok"
    unfolding dotlessCase_def toUpperCase_def by (rule dotlessCase_upper)
  with tok show "toUpperCase t \<in> set directionTokens" by simp
qed

lemma dotlessCase_token:
  assumes "tok \<in> set directionTokens" "dotlessCase t tok"
  shows "toUpperCase t = tok"
proof -
  have "\<forall>u \<in> set tok. 65 \<le> u \<and> u \<le> 90"
    using assms(1) by (auto simp: directionTokens_def token_codes)
  with assms(2) show ?thesis
    unfolding dotlessCase_def toUpperCase_def by (rule dotlessCase_upper)
qed

lemma letterCase_dotless: "letterCase t tok \<Longrightarrow> dotlessCase t tok"
  unfolding letterCase_def dotlessCase_def
  by (erule list_all2_mono) blast


text \<open>
  C8, as stated, fails: the route upper-cases the text with \<open>toUpperCase\<close>, which sends
  the dotless i to \<open>I\<close>. The text r, dotless i, g, h, t is none of the four tokens in any
  letter case, and the request is answered with success and turns player 1 from left to
  right.
\<close>

theorem C8_dotless_counterexample:
  "\<not> letterCase (codes ''r'' @ [305] @ codes ''ght'') (codes ''UP'')
   \<and> \<not> letterCase (codes ''r'' @ [305] @ codes ''ght'') (codes ''DOWN'')
   \<and> \<not> letterCase (codes ''r'' @ [305] @ codes ''ght'') (codes ''LEFT'')
   \<and> \<not> letterCase (codes ''r'' @ [305] @ codes ''ght'') (codes ''RIGHT'')
   \<and> fst (apiPress (Text (codes ''r'' @ [305] @ codes ''ght''))
          (initialGameState\<lparr>player1 := newPlayer 1 1 Left None\<rparr>))
       = Pressed \<lparr>up = False, down = False, left = False, right = True\<rparr>
   \<and> direction (player1 (snd (apiPress (Text (codes ''r'' @ [305] @ codes ''ght''))
          (initialGameState\<lparr>player1 := newPlayer 1 1 Left None\<rparr>)))) = Right"
  by (simp add: letterCase_def codes_def apiPress_def toUpperCase_def upperPoint_def
      specialUpper_def directionTokens_def pressInput_def updatePlayerDirection_def newPlayer_def)

text \<open>
  C8, amended: a request without a direction, or with a text that is none of UP, DOWN,
  LEFT, RIGHT in any letter case, where the dotless i (U+0131) counts as a letter case of
  \<open>I\<close>, is answered with the rejection and leaves the match state as it was; a request
  whose direction is no text is answered with the error reply and leaves it too. A request
  with one of the four tokens in such a letter case is answered with success and changes
  the state exactly as the bridge event with the same input does: player 1 faces the
  named direction and nothing else changes. Every plain letter case of a token is such a
  letter case.
\<close>

theorem C8_admin_press:
  "((d = Absent \<or> (\<exists>t. d = Text t \<and> (\<forall>tok \<in> set directionTokens. \<not> dotlessCase t tok))) \<longrightarrow>
       apiPress d s = (BadRequest, s))
   \<and> apiPress Other s = (ServerError, s)
   \<and> (tok \<in> set directionTokens \<and> dotlessCase t tok \<longrightarrow>
       apiPress (Text t) s = (Pressed (pressInput t), arduinoInput (pressInput t) s)
       \<and> snd (apiPress (Text t) s) =
           s\<lparr>player1 := (player1 s)\<lparr>direction :=
              (if tok = codes ''UP'' then Up else if tok = codes ''DOWN'' then Down
               else if tok = codes ''LEFT'' then Left else Right)\<rparr>\<rparr>)
   \<and> (letterCase t tok \<longrightarrow> dotlessCase t tok)"
proof -
  have reject: "apiPress d s = (BadRequest, s)"
    if "d = Absent \<or> (\<exists>t. d = Text t \<and> (\<forall>tok \<in> set directionTokens. \<not> dotlessCase t tok))"
    using that tokens_upper by (auto simp: apiPress_def)
  have other: "apiPress Other s = (ServerError, s)"
    by (simp add: apiPress_def)
  have accept: "apiPress (Text t) s = (Pressed (pressInput t), arduinoInput (pressInput t) s)
       \<and> snd (apiPress (Text t) s) =
           s\<lparr>player1 := (player1 s)\<lparr>direction :=
              (if tok = codes ''UP'' then Up else if tok = codes ''DOWN'' then Down
               else if tok = codes ''LEFT'' then Left else Right)\<rparr>\<rparr>"
    if tok: "tok \<in> set directionTokens" and d: "dotlessCase t tok"
  proof -
    have up: "toUpperCase t = tok" by (rule dotlessCase_token [OF tok d])
    have ne: "t \<noteq> []" using d tok by (auto simp: dotlessCase_def directionTokens_def token_codes)
    show ?thesis
      using up ne tok
      by (auto simp: apiPress_def arduinoInput_def pressInput_def updatePlayerDirection_def
          directionTokens_def token_codes)
  qed
  show ?thesis
    using reject other accept letterCase_dotless [of t tok] by blast
qed

text \<open>
  An unknown token is rejected; "down" in lower case is a letter case of DOWN and turns
  player 1 down; so does the text with the dotless i for RIGHT, to the right.
\<close>

theorem C8_admin_press_witness:
  "apiPress (Text (codes ''Sideways'')) initialGameState = (BadRequest, initialGameState)
   \<and> letterCase (codes ''down'') (codes ''DOWN'')
   \<and> direction (player1 (snd (apiPress (Text (codes ''down'')) initialGameState))) = Down
   \<and> dotlessCase (codes ''r'' @ [305] @ codes ''ght'') (codes ''RIGHT'')
   \<and> snd (apiPress (Text (codes ''r'' @ [305] @ codes ''ght''))
          (initialGameState\<lparr>player1 := newPlayer 1 1 Left None\<rparr>))
       = initialGameState\<lparr>player1 := newPlayer 1 1 Right None\<rparr>"
proof -
  have no: "\<forall>tok \<in> set directionTokens. \<not> dotlessCase (codes ''Sideways'') tok"
    by (simp add: directionTokens_def dotlessCase_def codes_def)
  have lc: "letterCase (codes ''down'') (codes ''DOWN'')"
    by (simp add: letterCase_def codes_def)
  have dc: "dotlessCase (codes ''r'' @ [305] @ codes ''ght'') (codes ''RIGHT'')"
    by (simp add: dotlessCase_def codes_def)
  have tk: "codes ''DOWN'' \<in> set directionTokens" "codes ''RIGHT'' \<in> set directionTokens"
    by (simp_all add: directionTokens_def)
  have a: "apiPress (Text (codes ''Sideways'')) initialGameState = (BadRequest, initialGameState)"
    using C8_admin_press [where d = "Text (codes ''Sideways'')" and s = initialGameState] no
    by simp
  have dd: "dotlessCase (codes ''down'') (codes ''DOWN'')"
    using C8_admin_press [where t = "codes ''down''" and tok = "codes ''DOWN''"] lc by blast
  have "snd (apiPress (Text (codes ''down'')) initialGameState) =
      initialGameState\<lparr>player1 := (player1 initialGameState)\<lparr>direction :=
        (if codes ''DOWN'' = codes ''UP'' then Up else if codes ''DOWN'' = codes ''DOWN'' then Down
         else if codes ''DOWN'' = codes ''LEFT'' then Left else Right)\<rparr>\<rparr>"
    using C8_admin_press [where t = "codes ''down''" and tok = "codes ''DOWN''"
        and s = initialGameState] dd tk
    by blast
  then have b: "direction (player1 (snd (apiPress (Text (codes ''down'')) initialGameState))) = Down"
    by (simp add: token_codes)
  have c: "snd (apiPress (Text (codes ''r'' @ [305] @ codes ''ght''))
          (initialGameState\<lparr>player1 := newPlayer 1 1 Left None\<rparr>))
       = initialGameState\<lparr>player1 := newPlayer 1 1 Right None\<rparr>"
  proof -
    have "snd (apiPress (Text (codes ''r'' @ [305] @ codes ''ght''))
          (initialGameState\<lparr>player1 := newPlayer 1 1 Left None\<rparr>))
       = (initialGameState\<lparr>player1 := newPlayer 1 1 Left None\<rparr>)
          \<lparr>player1 := (player1 (initialGameState\<lparr>player1 := newPlayer 1 1 Left None\<rparr>))
             \<lparr>direction :=
               (if codes ''RIGHT'' = codes ''UP'' then Up
                else if codes ''RIGHT'' = codes ''DOWN'' then Down
                else if codes ''RIGHT'' = codes ''LEFT'' then Left else Right)\<rparr>\<rparr>"
      using C8_admin_press [where t = "codes ''r'' @ [305] @ codes ''ght''"
          and tok = "codes ''RIGHT''"
          and s = "initialGameState\<lparr>player1 := newPlayer 1 1 Left None\<rparr>"] dc tk
      by blast
    then show ?thesis by (simp add: token_codes newPlayer_def)
  qed
  from a lc b dc c show ?thesis by blast
qed

subsection \<open>C9: in power mode every contact eats the ghost\<close>




subsection \<open>C10: an input with no flag set changes nothing\<close>

text \<open>
  C10: with all four flags false, \<open>updatePlayerDirection\<close> returns the player as it was,
  and the player-input and bridge handlers return the state as it was. The manual press
  with a text that is no direction, and a serial key that the bridge's switch does not
  map to a direction (SELECT among them), are such inputs; an analog reading from 600 on
  is not applied at all.
\<close>

theorem C10_empty_intent:
  "(\<not> up i \<and> \<not> down i \<and> \<not> left i \<and> \<not> right i \<longrightarrow>
      updatePlayerDirection p i = p \<and> playerInput n i s = s \<and> arduinoInput i s = s
      \<and> handle (PlayerInput n i) sv = sv \<and> handle (ArduinoInput i) sv = sv)
   \<and> (toUpperCase d \<notin> {codes ''UP'', codes ''DOWN'', codes ''LEFT'', codes ''RIGHT''} \<longrightarrow>
        manualPress d s = s \<and> handle (ManualPress d) sv = sv)
   \<and> (k \<notin> {''UP'', ''DOWN'', ''LEFT'', ''RIGHT'', ''0'', ''1'', ''2'', ''3'',
            ''UP_VAL'', ''DOWN_VAL'', ''LEFT_VAL'', ''RIGHT_VAL''} \<longrightarrow>
        arduinoInput (keyInput k) s = s \<and> handle (ArduinoInput (keyInput k)) sv = sv)
   \<and> (600 \<le> v \<longrightarrow> analogEvent v s = s)"
  by (auto simp: updatePlayerDirection_def playerInput_def arduinoInput_def manualPress_def
      pressInput_def keyInput_def analogEvent_def analogInput_def)

text \<open>The SELECT key of the keypad shield, and a manual press of "select".\<close>

theorem C10_empty_intent_witness:
  "handle (ArduinoInput (keyInput ''SELECT_VAL'')) initialServer = initialServer
   \<and> handle (ManualPress (codes ''select'')) initialServer = initialServer
   \<and> handle (PlayerInput 2 \<lparr>up = False, down = False, left = False, right = False\<rparr>) initialServer
       = initialServer
   \<and> analogEvent 700 initialGameState = initialGameState"
  using C10_empty_intent [where i = "\<lparr>up = False, down = False, left = False, right = False\<rparr>"
      and n = 2 and sv = initialServer and d = "codes ''select''" and k = "''SELECT_VAL''"
      and v = 700 and s = initialGameState]
  by (simp add: toUpperCase_def upperPoint_def specialUpper_def codes_def)

end
